theory Spec2Isabelle
  imports Complex_Main "HOL-Library.Word"
begin

section \<open>Strings of the source language\<close>

text \<open>
  The service is TypeScript. Its strings are sequences of UTF-16 code units, so a
  string is a list of 16-bit words here. \<open>js\<close> turns an ASCII literal into such a
  string.
\<close>

type_synonym jschar = "16 word"
type_synonym jsstring = "jschar list"

definition js :: "string \<Rightarrow> jsstring" where
  "js s = map of_char s"

text \<open>\<^verbatim>\<open>s.endsWith(t)\<close>\<close>

definition endsWith :: "jsstring \<Rightarrow> jsstring \<Rightarrow> bool" where
  "endsWith s t = (length t \<le> length s \<and> drop (length s - length t) s = t)"

text \<open>\<^verbatim>\<open>s.split(c)\<close> for a separator of one code unit: the empty string gives one empty piece.\<close>

fun split :: "jschar \<Rightarrow> jsstring \<Rightarrow> jsstring list" where
  "split c [] = [[]]"
| "split c (x # xs) =
     (if x = c then [] # split c xs
      else (case split c xs of [] \<Rightarrow> [[x]] | p # ps \<Rightarrow> (x # p) # ps))"

text \<open>
  \<^verbatim>\<open>arr.indexOf(x)\<close>: the first position of \<open>x\<close>, or \<open>-1\<close>; and \<^verbatim>\<open>arr[i]\<close>, which is
  \<^verbatim>\<open>undefined\<close> (here \<open>None\<close>) outside the array.
\<close>

fun indexOf :: "'a list \<Rightarrow> 'a \<Rightarrow> int" where
  "indexOf [] x = -1"
| "indexOf (y # ys) x =
     (if y = x then 0 else (let i = indexOf ys x in if i < 0 then -1 else i + 1))"

definition elemAt :: "'a list \<Rightarrow> int \<Rightarrow> 'a option" where
  "elemAt xs i = (if 0 \<le> i \<and> i < int (length xs) then Some (xs ! nat i) else None)"

text \<open>
  Truthiness of a value that is a string, \<^verbatim>\<open>null\<close> or \<^verbatim>\<open>undefined\<close>: only a
  non-empty string is truthy.
\<close>

definition truthyStr :: "jsstring option \<Rightarrow> bool" where
  "truthyStr v = (case v of None \<Rightarrow> False | Some s \<Rightarrow> s \<noteq> [])"

section \<open>The identifier extractor\<close>

text \<open>
  \<^verbatim>\<open>new URL(url)\<close> is the platform's parser, not code of the repository. The extractor
  reads three parts of its result: \<^verbatim>\<open>hostname\<close>, \<^verbatim>\<open>pathname\<close> and \<^verbatim>\<open>searchParams\<close>,
  the query as name/value pairs in their order. The parser is a parameter,
  \<open>None\<close> where \<^verbatim>\<open>new URL\<close> throws.
\<close>

record URL =
  hostname :: jsstring
  pathname :: jsstring
  searchParams :: "(jsstring \<times> jsstring) list"

type_synonym urlParser = "jsstring \<Rightarrow> URL option"

text \<open>\<^verbatim>\<open>u.searchParams.get(name)\<close>: the value of the first pair with that name, or \<^verbatim>\<open>null\<close>.\<close>

definition searchParams_get :: "URL \<Rightarrow> jsstring \<Rightarrow> jsstring option" where
  "searchParams_get u name = map_of (searchParams u) name"

text \<open>\<^verbatim>\<open>u.pathname.split("/").filter(Boolean)\<close>\<close>

definition pathParts :: "URL \<Rightarrow> jsstring list" where
  "pathParts u = filter (\<lambda>p. p \<noteq> []) (split (of_char CHR ''/'') (pathname u))"

text \<open>
  \<^verbatim>\<open>
  const extractYouTubeId = (url: string): string | null => {
    try {
      const u = new URL(url);
      const v = u.searchParams.get("v");
      if (v) return v;
      if (u.hostname.endsWith("youtu.be")) {
        const id = u.pathname.split("/").filter(Boolean)[0];
        return id || null;
      }
      const parts = u.pathname.split("/").filter(Boolean);
      const shortsIdx = parts.indexOf("shorts");
      if (shortsIdx >= 0 && parts[shortsIdx + 1]) return parts[shortsIdx + 1];
      const embedIdx = parts.indexOf("embed");
      if (embedIdx >= 0 && parts[embedIdx + 1]) return parts[embedIdx + 1];
      return null;
    } catch { return null; }
  };
  \<close>
\<close>

definition extractYouTubeId :: "urlParser \<Rightarrow> jsstring \<Rightarrow> jsstring option" where
  "extractYouTubeId parseURL url =
     (case parseURL url of
        None \<Rightarrow> None
      | Some u \<Rightarrow>
          (let v = searchParams_get u (js ''v'') in
           if truthyStr v then v
           else if endsWith (hostname u) (js ''youtu.be'') then
             (let id = elemAt (pathParts u) 0 in if truthyStr id then id else None)
           else
             (let parts = pathParts u;
                  shortsIdx = indexOf parts (js ''shorts'') in
              if shortsIdx \<ge> 0 \<and> truthyStr (elemAt parts (shortsIdx + 1))
              then elemAt parts (shortsIdx + 1)
              else
                (let embedIdx = indexOf parts (js ''embed'') in
                 if embedIdx \<ge> 0 \<and> truthyStr (elemAt parts (embedIdx + 1))
                 then elemAt parts (embedIdx + 1)
                 else None))))"

subsection \<open>The URL shapes of the specification\<close>

text \<open>
  The four shapes, each as the identifier a parsed URL carries in that shape, if any:
  the \<open>v\<close> query parameter (non-empty), the first non-empty path segment on the
  shortened domain, the segment after a \<open>shorts\<close> segment, the segment after an
  \<open>embed\<close> segment.
\<close>

definition segmentAfter :: "jsstring \<Rightarrow> jsstring list \<Rightarrow> jsstring option" where
  "segmentAfter name parts =
     (case dropWhile (\<lambda>p. p \<noteq> name) parts of
        _ # ident # _ \<Rightarrow> Some ident
      | _ \<Rightarrow> None)"

definition canonicalId :: "URL \<Rightarrow> jsstring option" where
  "canonicalId u =
     (case map_of (searchParams u) (js ''v'') of
        None \<Rightarrow> None
      | Some v \<Rightarrow> if v = [] then None else Some v)"

definition shortenedId :: "URL \<Rightarrow> jsstring option" where
  "shortenedId u =
     (if endsWith (hostname u) (js ''youtu.be'')
      then (case pathParts u of [] \<Rightarrow> None | p # _ \<Rightarrow> Some p)
      else None)"

definition shortsId :: "URL \<Rightarrow> jsstring option" where
  "shortsId u = segmentAfter (js ''shorts'') (pathParts u)"

definition embedId :: "URL \<Rightarrow> jsstring option" where
  "embedId u = segmentAfter (js ''embed'') (pathParts u)"

fun firstSome :: "'a option list \<Rightarrow> 'a option" where
  "firstSome [] = None"
| "firstSome (None # xs) = firstSome xs"
| "firstSome (Some x # xs) = Some x"

subsection \<open>Results of the platform's parser at the URLs evaluated below\<close>

definition exampleURLs :: "(jsstring \<times> URL) list" where
  "exampleURLs =
     [(js ''https://www.youtube.com/watch?v=ABC123'',
         \<lparr>hostname = js ''www.youtube.com'', pathname = js ''/watch'',
          searchParams = [(js ''v'', js ''ABC123'')]\<rparr>),
      (js ''https://youtu.be/abc?v=def'',
         \<lparr>hostname = js ''youtu.be'', pathname = js ''/abc'',
          searchParams = [(js ''v'', js ''def'')]\<rparr>),
      (js ''https://youtu.be/abc'',
         \<lparr>hostname = js ''youtu.be'', pathname = js ''/abc'', searchParams = []\<rparr>),
      (js ''https://www.youtube.com/shorts/abc'',
         \<lparr>hostname = js ''www.youtube.com'', pathname = js ''/shorts/abc'',
          searchParams = []\<rparr>),
      (js ''https://www.youtube.com/embed/abc'',
         \<lparr>hostname = js ''www.youtube.com'', pathname = js ''/embed/abc'',
          searchParams = []\<rparr>),
      (js ''https://www.youtube.com/'',
         \<lparr>hostname = js ''www.youtube.com'', pathname = js ''/'', searchParams = []\<rparr>)]"

definition exampleParseURL :: urlParser where
  "exampleParseURL url = map_of exampleURLs url"

section \<open>Values\<close>

text \<open>
  The documents are untyped (\<^verbatim>\<open>any\<close>) in the source: whatever \<^verbatim>\<open>JSON.parse\<close> returns,
  with properties added by assignment. A number is a double: finite (a rational) or
  an infinity, which \<^verbatim>\<open>JSON.parse\<close> gives on overflow; the code only tests numbers
  for truthiness. An array carries its elements and the named properties assigned
  to it.
\<close>

datatype jsnumber = Finite rat | PosInfinity | NegInfinity

datatype jsvalue =
    JUndefined
  | JNull
  | JBool bool
  | JNum jsnumber
  | JStr jsstring
  | JArr "jsvalue list" "(jsstring \<times> jsvalue) list"
  | JObj "(jsstring \<times> jsvalue) list"

fun truthy :: "jsvalue \<Rightarrow> bool" where
  "truthy JUndefined = False"
| "truthy JNull = False"
| "truthy (JBool b) = b"
| "truthy (JNum n) = (n \<noteq> Finite 0)"
| "truthy (JStr s) = (s \<noteq> [])"
| "truthy (JArr es ps) = True"
| "truthy (JObj ps) = True"

text \<open>
  Reading a property, for the names this service reads (\<^verbatim>\<open>error\<close>, \<^verbatim>\<open>videoId\<close>,
  \<^verbatim>\<open>videoTitle\<close>, \<^verbatim>\<open>videoUrl\<close>, \<^verbatim>\<open>sources\<close>, \<^verbatim>\<open>title\<close>, \<^verbatim>\<open>author_name\<close>): none of
  them is an index or a built-in property, so a primitive and an array's elements
  give \<^verbatim>\<open>undefined\<close>. On \<^verbatim>\<open>null\<close> and \<^verbatim>\<open>undefined\<close> this is the optional read
  \<^verbatim>\<open>v?.name\<close>; the source never reads a property of a nullish value otherwise.
\<close>

fun getProp :: "jsvalue \<Rightarrow> jsstring \<Rightarrow> jsvalue" where
  "getProp (JObj ps) k = (case map_of ps k of None \<Rightarrow> JUndefined | Some v \<Rightarrow> v)"
| "getProp (JArr es ps) k = (case map_of ps k of None \<Rightarrow> JUndefined | Some v \<Rightarrow> v)"
| "getProp v k = JUndefined"

text \<open>
  Assigning a property. An existing key keeps its place, a new one goes last. The
  file is an ES module, hence strict code: assigning a property to a primitive
  throws a TypeError (\<open>None\<close>).
\<close>

fun setKey :: "jsstring \<Rightarrow> jsvalue \<Rightarrow> (jsstring \<times> jsvalue) list \<Rightarrow> (jsstring \<times> jsvalue) list" where
  "setKey k v [] = [(k, v)]"
| "setKey k v ((k', v') # ps) = (if k' = k then (k, v) # ps else (k', v') # setKey k v ps)"

fun setProp :: "jsvalue \<Rightarrow> jsstring \<Rightarrow> jsvalue \<Rightarrow> jsvalue option" where
  "setProp (JObj ps) k v = Some (JObj (setKey k v ps))"
| "setProp (JArr es ps) k v = Some (JArr es (setKey k v ps))"
| "setProp w k v = None"

text \<open>A structured document: an object (or an array), as opposed to a primitive.\<close>

fun isObject :: "jsvalue \<Rightarrow> bool" where
  "isObject (JObj ps) = True"
| "isObject (JArr es ps) = True"
| "isObject v = False"

section \<open>The response parser\<close>

text \<open>
  \<^verbatim>\<open>JSON.parse\<close> is the platform's decoder, a parameter: \<open>None\<close> where it throws.
\<close>

type_synonym jsonParser = "jsstring \<Rightarrow> jsvalue option"

text \<open>\<^verbatim>\<open>s.lastIndexOf(x)\<close>: the last position of \<open>x\<close>, or \<open>-1\<close>.\<close>

definition lastIndexOf :: "'a list \<Rightarrow> 'a \<Rightarrow> int" where
  "lastIndexOf xs x =
     (let i = indexOf (rev xs) x in if i < 0 then -1 else int (length xs) - 1 - i)"

text \<open>
  \<^verbatim>\<open>s.substring(a, b)\<close>: both bounds are clamped to the string, and swapped when the
  first is the larger.
\<close>

definition substring :: "jsstring \<Rightarrow> int \<Rightarrow> int \<Rightarrow> jsstring" where
  "substring s a b =
     (let n = int (length s);
          a' = min (max a 0) n;
          b' = min (max b 0) n;
          lo = min a' b';
          hi = max a' b'
      in take (nat (hi - lo)) (drop (nat lo) s))"

abbreviation LBRACE :: jschar where "LBRACE \<equiv> of_char CHR ''{''"
abbreviation RBRACE :: jschar where "RBRACE \<equiv> of_char CHR ''}''"

text \<open>
  \<^verbatim>\<open>
  const parseJsonResponse = <T,>(text: string): T | null => {
    try {
      const start = text.indexOf("{");
      const end = text.lastIndexOf("}");
      if (start === -1 || end === -1) return null;
      const jsonStr = text.substring(start, end + 1);
      return JSON.parse(jsonStr);
    } catch { return null; }
  };
  \<close>
  "No document" is \<^verbatim>\<open>null\<close>.
\<close>

definition parseJsonResponse :: "jsonParser \<Rightarrow> jsstring \<Rightarrow> jsvalue" where
  "parseJsonResponse jsonParse text =
     (let start = indexOf text LBRACE;
          end = lastIndexOf text RBRACE
      in if start = -1 \<or> end = -1 then JNull
         else (let jsonStr = substring text start (end + 1)
               in case jsonParse jsonStr of None \<Rightarrow> JNull | Some d \<Rightarrow> d))"

subsection \<open>Results of the platform's decoder at the texts evaluated below\<close>

definition exampleJsonTexts :: "(jsstring \<times> jsvalue) list" where
  "exampleJsonTexts =
     [(js ''{}'', JObj []),
      (js ''{\"error\":\"unsure\"}'', JObj [(js ''error'', JStr (js ''unsure''))]),
      (js ''{\"videoTitle\":\"Final\",\"videoUrl\":\"x\",\"videoId\":\"ABC123\"}'',
         JObj [(js ''videoTitle'', JStr (js ''Final'')),
               (js ''videoUrl'', JStr (js ''x'')),
               (js ''videoId'', JStr (js ''ABC123''))]),
      (js ''{\"videoTitle\":\"Final\",\"videoId\":\"XYZ999\"}'',
         JObj [(js ''videoTitle'', JStr (js ''Final'')),
               (js ''videoId'', JStr (js ''XYZ999''))]),
      (js ''{\"videoTitle\":\"Final\"}'',
         JObj [(js ''videoTitle'', JStr (js ''Final''))]),
      (js ''{\"title\":\"Final\",\"author_name\":\"TV\"}'',
         JObj [(js ''title'', JStr (js ''Final'')),
               (js ''author_name'', JStr (js ''TV''))])]"

definition exampleJsonParse :: jsonParser where
  "exampleJsonParse s = map_of exampleJsonTexts s"

section \<open>The source reconciler\<close>

text \<open>
  \<^verbatim>\<open>s.trim()\<close> removes the white space and line terminators of the language from both
  ends: TAB, LF, VT, FF, CR, SP, NBSP, U+1680, U+2000 to U+200A, U+2028, U+2029,
  U+202F, U+205F, U+3000 and U+FEFF.
\<close>

definition isWhiteSpace :: "jschar \<Rightarrow> bool" where
  "isWhiteSpace c =
     (c \<in> {0x0009, 0x000A, 0x000B, 0x000C, 0x000D, 0x0020, 0x00A0, 0x1680,
            0x2028, 0x2029, 0x202F, 0x205F, 0x3000, 0xFEFF}
      \<or> (0x2000 \<le> c \<and> c \<le> 0x200A))"

definition trim :: "jsstring \<Rightarrow> jsstring" where
  "trim s = rev (dropWhile isWhiteSpace (rev (dropWhile isWhiteSpace s)))"

text \<open>
  A grounding source: \<^verbatim>\<open>{ title, uri }\<close>. The pipeline only builds sources whose
  \<^verbatim>\<open>uri\<close> is a string, so \<^verbatim>\<open>src.uri || ""\<close> is \<^verbatim>\<open>src.uri\<close>.
\<close>

record Source =
  title :: "jsstring option"
  uri :: jsstring

text \<open>\<^verbatim>\<open>arr.findIndex(p)\<close>: the first position whose element satisfies \<open>p\<close>, or \<open>-1\<close>.\<close>

fun findIndex :: "('a \<Rightarrow> bool) \<Rightarrow> 'a list \<Rightarrow> int" where
  "findIndex p [] = -1"
| "findIndex p (y # ys) =
     (if p y then 0 else (let i = findIndex p ys in if i < 0 then -1 else i + 1))"

text \<open>The source put first: the analysed video itself, under the title \<^verbatim>\<open>YouTube (v\<close>i\<^verbatim>\<open>deo analisado)\<close>
  (with U+00ED for the accented letter).\<close>

definition videoSource :: "jsstring \<Rightarrow> Source" where
  "videoSource youtubeUrl =
     \<lparr>title = Some (js ''YouTube (v'' @ [0x00ED] @ js ''deo analisado)''), uri = youtubeUrl\<rparr>"

text \<open>
  \<^verbatim>\<open>
  const uniqueSources: GroundingSource[] = [
    { title: "YouTube (...)", uri: youtubeUrl },
    ...sources,
  ].filter((src, idx, arr) => {
    const uri = (src.uri || "").trim();
    if (!uri) return false;
    return idx === arr.findIndex((s) => (s.uri || "").trim() === uri);
  });
  \<close>
  \<open>keepSource arr\<close> is the callback of the filter, on a position and its element.
\<close>

definition keepSource :: "Source list \<Rightarrow> nat \<times> Source \<Rightarrow> bool" where
  "keepSource arr = (\<lambda>(idx, src).
     (let u = trim (uri src)
      in if u = [] then False
         else int idx = findIndex (\<lambda>s. trim (uri s) = u) arr))"

definition uniqueSources :: "jsstring \<Rightarrow> Source list \<Rightarrow> Source list" where
  "uniqueSources youtubeUrl sources =
     (let arr = videoSource youtubeUrl # sources
      in map snd (filter (keepSource arr) (enumerate 0 arr)))"

text \<open>
  The output of the reconciler without the source of the video itself, where that
  source stands first.
\<close>

definition withoutVideoSource :: "jsstring \<Rightarrow> Source list \<Rightarrow> Source list" where
  "withoutVideoSource youtubeUrl srcs =
     (case srcs of
        [] \<Rightarrow> []
      | s # rest \<Rightarrow> if s = videoSource youtubeUrl then rest else srcs)"

text \<open>A list is deduplicated when the trimmed addresses are non-empty and pairwise different.\<close>

definition deduplicated :: "Source list \<Rightarrow> bool" where
  "deduplicated srcs =
     (distinct (map (\<lambda>s. trim (uri s)) srcs) \<and> [] \<notin> set (map (\<lambda>s. trim (uri s)) srcs))"

text \<open>
  The same filter as a recursion that carries the trimmed addresses seen so far; the
  proofs go through it.
\<close>

fun keepFirst :: "jsstring set \<Rightarrow> Source list \<Rightarrow> Source list" where
  "keepFirst seen [] = []"
| "keepFirst seen (s # rest) =
     (if trim (uri s) = [] \<or> trim (uri s) \<in> seen then keepFirst seen rest
      else s # keepFirst (insert (trim (uri s)) seen) rest)"

section \<open>The title matcher\<close>

text \<open>
  \<^verbatim>\<open>
  const normalizeTitle = (s: string) =>
    s.trim().toLowerCase().replace(/[\u200B-\u200D\uFEFF]/g, "").replace(/\s+/g, " ");
  \<close>
  \<^verbatim>\<open>toLowerCase\<close> follows the Unicode case tables of the platform and is a parameter.
  The class \<^verbatim>\<open>\s\<close> of a regular expression is the white space that \<^verbatim>\<open>trim\<close> removes.
\<close>

definition isZeroWidth :: "jschar \<Rightarrow> bool" where
  "isZeroWidth c = ((0x200B \<le> c \<and> c \<le> 0x200D) \<or> c = 0xFEFF)"

function collapseWhiteSpace :: "jsstring \<Rightarrow> jsstring" where
  "collapseWhiteSpace [] = []"
| "collapseWhiteSpace (c # cs) =
     (if isWhiteSpace c then 0x0020 # collapseWhiteSpace (dropWhile isWhiteSpace cs)
      else c # collapseWhiteSpace cs)"
  by pat_completeness auto
termination
  by (relation "measure length") (auto simp: length_dropWhile_le less_Suc_eq_le)

definition normalizeTitle :: "(jsstring \<Rightarrow> jsstring) \<Rightarrow> jsstring \<Rightarrow> jsstring" where
  "normalizeTitle toLowerCase s =
     collapseWhiteSpace (filter (\<lambda>c. \<not> isZeroWidth c) (toLowerCase (trim s)))"

text \<open>\<^verbatim>\<open>s.includes(t)\<close>: \<open>t\<close> occurs in \<open>s\<close> as a run of consecutive code units.\<close>

fun includesStr :: "jsstring \<Rightarrow> jsstring \<Rightarrow> bool" where
  "includesStr [] t = (t = [])"
| "includesStr (c # cs) t = (take (length t) (c # cs) = t \<or> includesStr cs t)"

text \<open>
  \<^verbatim>\<open>
  const titlesLooselyMatch = (a: string, b: string): boolean => {
    const t1 = normalizeTitle(a);
    const t2 = normalizeTitle(b);
    if (!t1 || !t2) return false;
    return t1 === t2 || t1.includes(t2) || t2.includes(t1);
  };
  \<close>
\<close>

definition titlesLooselyMatch :: "(jsstring \<Rightarrow> jsstring) \<Rightarrow> jsstring \<Rightarrow> jsstring \<Rightarrow> bool" where
  "titlesLooselyMatch toLowerCase a b =
     (let t1 = normalizeTitle toLowerCase a;
          t2 = normalizeTitle toLowerCase b
      in if t1 = [] \<or> t2 = [] then False
         else t1 = t2 \<or> includesStr t1 t2 \<or> includesStr t2 t1)"

section \<open>The platform and the outside world\<close>

text \<open>
  The functions of the platform that the service calls and that are not code of the
  repository. \<^verbatim>\<open>encodeURIComponent\<close> throws on a lone surrogate (\<open>None\<close>).
\<close>

record platform =
  parseURL :: urlParser
  jsonParse :: jsonParser
  toLowerCase :: "jsstring \<Rightarrow> jsstring"
  encodeURIComponent :: "jsstring \<Rightarrow> jsstring option"

text \<open>
  What \<^verbatim>\<open>fetch\<close> gives for an address: it throws (a network error), or a response
  with its \<^verbatim>\<open>ok\<close> flag (a 2xx status) and its body as \<^verbatim>\<open>res.json()\<close> decodes it, \<open>None\<close>
  when that rejects.
\<close>

datatype fetchResult = FetchFails | FetchResponse bool "jsvalue option"

text \<open>
  The answer of the generation service: the raw text (possibly \<^verbatim>\<open>undefined\<close>) and
  \<^verbatim>\<open>candidates?.[0]?.groundingMetadata?.groundingChunks\<close>, each chunk with an optional
  \<^verbatim>\<open>web\<close> part of optional \<^verbatim>\<open>title\<close> and \<^verbatim>\<open>uri\<close>.
\<close>

record groundingWeb =
  webTitle :: "jsstring option"
  webUri :: "jsstring option"

datatype chunk = Chunk "groundingWeb option"

record response =
  responseText :: "jsstring option"
  groundingChunks :: "chunk list option"

datatype genResult = GenFails | GenResponse response

text \<open>
  The request to the generation service. The prompt of the link path is a fixed
  template around five values: the URL, the expected identifier, the verified title
  and channel, and the mode; the prompt of the file path is a fixed text followed by
  the frames. The request keeps these values in place of the text.
\<close>

datatype contents =
    WebPrompt jsstring jsstring jsvalue jsvalue bool
  | FilePrompt "jsstring list"

record genRequest =
  model :: jsstring
  contents :: contents
  googleSearch :: bool
  thinkingBudget :: nat

text \<open>
  The world outside the service: the three places a credential is looked for, the
  network, and the generation service (called with the credential of the client).
\<close>

record world =
  viteKey :: "jsstring option"
  procKey :: "jsstring option"
  procGeminiKey :: "jsstring option"
  fetch :: "jsstring \<Rightarrow> fetchResult"
  generateContent :: "jsstring \<Rightarrow> genRequest \<Rightarrow> genResult"

text \<open>The input and output operations a request performs, in their order.\<close>

datatype io = IOFetch jsstring | IOGenerate genRequest | IOVideo jsstring

text \<open>The error kinds of the specification, and a TypeError of the language.\<close>

datatype error =
    InvalidLink
  | UnverifiableVideo
  | MissingCredential
  | TransportError
  | UnparsableResponse
  | ModelDeclinedIdentification jsvalue
  | MissingVideoId
  | VideoIdMismatch jsvalue jsstring
  | TitleMismatch
  | FrameExtractionFailed
  | TypeError

text \<open>A promise, once the events of the world have been consumed.\<close>

datatype 'a promise = Pending | Fulfilled 'a | Rejected error

section \<open>Credential and client\<close>

text \<open>
  \<^verbatim>\<open>
  const getApiKey = (): string | undefined => { ... return viteKey || procKey || procGeminiKey; };
  const getClient = (): GoogleGenAI => {
    const apiKey = getApiKey();
    if (!apiKey) { throw new Error("Chave de API ..."); }
    return new GoogleGenAI({ apiKey });
  };
  \<close>
  The client is its credential; \<open>None\<close> is the thrown error.
\<close>

definition getApiKey :: "world \<Rightarrow> jsstring option" where
  "getApiKey W =
     (if truthyStr (viteKey W) then viteKey W
      else if truthyStr (procKey W) then procKey W
      else procGeminiKey W)"

definition getClient :: "world \<Rightarrow> jsstring option" where
  "getClient W = (let apiKey = getApiKey W in if \<not> truthyStr apiKey then None else apiKey)"

section \<open>The metadata verifier\<close>

text \<open>
  \<^verbatim>\<open>
  const fetchYouTubeOEmbed = async (youtubeUrl) => {
    try {
      const endpoint = `https://www.youtube.com/oembed?format=json&url=${encodeURIComponent(youtubeUrl)}`;
      const res = await fetch(endpoint, { method: "GET" });
      if (!res.ok) return null;
      const data = await res.json();
      return { title: data?.title, author_name: data?.author_name };
    } catch { return null; }
  };
  \<close>
\<close>

record oembed =
  oembedTitle :: jsvalue
  author_name :: jsvalue

definition oembedEndpoint :: "jsstring \<Rightarrow> jsstring" where
  "oembedEndpoint encoded = js ''https://www.youtube.com/oembed?format=json&url='' @ encoded"

definition fetchYouTubeOEmbed :: "platform \<Rightarrow> world \<Rightarrow> jsstring \<Rightarrow> io list \<times> oembed option" where
  "fetchYouTubeOEmbed P W youtubeUrl =
     (case encodeURIComponent P youtubeUrl of
        None \<Rightarrow> ([], None)
      | Some encoded \<Rightarrow>
          (let endpoint = oembedEndpoint encoded
           in ([IOFetch endpoint],
               (case fetch W endpoint of
                  FetchFails \<Rightarrow> None
                | FetchResponse ok body \<Rightarrow>
                    if \<not> ok then None
                    else (case body of
                            None \<Rightarrow> None
                          | Some data \<Rightarrow>
                              Some \<lparr>oembedTitle = getProp data (js ''title''),
                                    author_name = getProp data (js ''author_name'')\<rparr>)))))"

text \<open>\<^verbatim>\<open>oembed?.title\<close>\<close>

definition titleOf :: "oembed option \<Rightarrow> jsvalue" where
  "titleOf oe = (case oe of None \<Rightarrow> JUndefined | Some m \<Rightarrow> oembedTitle m)"

text \<open>
  The failures of verification the specification names: a network error, a status
  other than 2xx, a body that does not decode or has no title.
\<close>

definition metadataFailure :: "fetchResult \<Rightarrow> bool" where
  "metadataFailure r =
     (case r of
        FetchFails \<Rightarrow> True
      | FetchResponse ok body \<Rightarrow>
          (if ok then (case body of None \<Rightarrow> True
                                 | Some data \<Rightarrow> \<not> truthy (getProp data (js ''title'')))
           else True))"

text \<open>
  The verification step fails: the address cannot be built, or the answer of the
  network is one of these failures.
\<close>

definition verificationFails :: "platform \<Rightarrow> world \<Rightarrow> jsstring \<Rightarrow> bool" where
  "verificationFails P W youtubeUrl =
     (case encodeURIComponent P youtubeUrl of
        None \<Rightarrow> True
      | Some encoded \<Rightarrow> metadataFailure (fetch W (oembedEndpoint encoded)))"

section \<open>The identity guard pipeline of the link path\<close>

datatype mode = Web | Video

text \<open>The grounding sources gathered from the response:
  \<^verbatim>\<open>
  chunks.forEach((chunk) => {
    if (chunk.web && chunk.web.uri) sources.push({ title: chunk.web.title, uri: chunk.web.uri });
  });
  \<close>
\<close>

definition chunkSources :: "chunk \<Rightarrow> Source list" where
  "chunkSources c =
     (case c of
        Chunk None \<Rightarrow> []
      | Chunk (Some w) \<Rightarrow>
          (case webUri w of
             None \<Rightarrow> []
           | Some u \<Rightarrow> if u = [] then [] else [\<lparr>title = webTitle w, uri = u\<rparr>]))"

definition groundingSources :: "response \<Rightarrow> Source list" where
  "groundingSources r =
     (case groundingChunks r of None \<Rightarrow> [] | Some chunks \<Rightarrow> concat (map chunkSources chunks))"

definition sourceValue :: "Source \<Rightarrow> jsvalue" where
  "sourceValue s =
     JObj [(js ''title'', (case title s of None \<Rightarrow> JUndefined | Some t \<Rightarrow> JStr t)),
           (js ''uri'', JStr (uri s))]"

text \<open>
  \<^verbatim>\<open>parseJsonResponse(response.text)\<close>: on an undefined text \<^verbatim>\<open>text.indexOf\<close> throws inside
  the \<^verbatim>\<open>try\<close>, and the result is \<^verbatim>\<open>null\<close>.
\<close>

definition decodeResponse :: "platform \<Rightarrow> response \<Rightarrow> jsvalue" where
  "decodeResponse P r =
     (case responseText r of None \<Rightarrow> JNull | Some t \<Rightarrow> parseJsonResponse (jsonParse P) t)"

text \<open>
  The part of \<^verbatim>\<open>getAnalysisFromWeb\<close> after the generation call (lines 203 to 259):
  decoding, the declared error, guards 3 to 5, and the sources.
  \<^verbatim>\<open>
  const analysis = parseJsonResponse<any>(response.text);
  if (!analysis) throw new Error("Erro Critico: ...");
  if (analysis.error) throw new Error(analysis.error);
  analysis.videoUrl = youtubeUrl;                                   // GUARDA 3
  const returnedId = (analysis as any)?.videoId as string | undefined;
  if (!returnedId) throw new Error("Erro: o modelo nao retornou videoId. ...");   // GUARDA 4
  if (returnedId !== expectedVideoId) throw new Error(`Erro: ... (ID ${returnedId} != ${expectedVideoId}).`);
  if (typeof analysis.videoTitle !== "string" || !titlesLooselyMatch(oembed.title, analysis.videoTitle))
    throw new Error("Erro: o titulo retornado nao corresponde ...");            // GUARDA 5
  ... sources, uniqueSources ...
  analysis.sources = uniqueSources;
  return analysis as Analysis;
  \<close>
  A verified title that is truthy but not a string makes \<^verbatim>\<open>normalizeTitle\<close> throw a
  TypeError (\<^verbatim>\<open>s.trim\<close> is not a function).
\<close>

definition identityGuards ::
  "platform \<Rightarrow> jsstring \<Rightarrow> jsstring \<Rightarrow> jsvalue \<Rightarrow> response \<Rightarrow> jsvalue promise" where
  "identityGuards P youtubeUrl expectedVideoId verifiedTitle r =
     (let analysis = decodeResponse P r in
      if \<not> truthy analysis then Rejected UnparsableResponse
      else if truthy (getProp analysis (js ''error''))
        then Rejected (ModelDeclinedIdentification (getProp analysis (js ''error'')))
      else
        (case setProp analysis (js ''videoUrl'') (JStr youtubeUrl) of
           None \<Rightarrow> Rejected TypeError
         | Some pinned \<Rightarrow>
             (let returnedId = getProp pinned (js ''videoId'') in
              if \<not> truthy returnedId then Rejected MissingVideoId
              else if returnedId \<noteq> JStr expectedVideoId
                then Rejected (VideoIdMismatch returnedId expectedVideoId)
              else
                (case getProp pinned (js ''videoTitle'') of
                   JStr videoTitle \<Rightarrow>
                     (case verifiedTitle of
                        JStr t \<Rightarrow>
                          if \<not> titlesLooselyMatch (toLowerCase P) t videoTitle
                          then Rejected TitleMismatch
                          else
                            (let sources = groundingSources r;
                                 unique = uniqueSources youtubeUrl sources
                             in case setProp pinned (js ''sources'')
                                       (JArr (map sourceValue unique) []) of
                                  None \<Rightarrow> Rejected TypeError
                                | Some result \<Rightarrow> Fulfilled result)
                      | _ \<Rightarrow> Rejected TypeError)
                 | _ \<Rightarrow> Rejected TitleMismatch))))"

definition webRequest :: "jsstring \<Rightarrow> jsstring \<Rightarrow> oembed \<Rightarrow> bool \<Rightarrow> genRequest" where
  "webRequest youtubeUrl expectedVideoId m isDetailed =
     \<lparr>model = js ''gemini-3-pro-preview'',
      contents = WebPrompt youtubeUrl expectedVideoId (oembedTitle m) (author_name m) isDetailed,
      googleSearch = True,
      thinkingBudget = 6000\<rparr>"

text \<open>
  \<^verbatim>\<open>
  const getAnalysisFromWeb = async (youtubeUrl, mode = "web") => {
    const isDetailed = mode === "video";
    const expectedVideoId = extractYouTubeId(youtubeUrl);          // GUARDA 1
    if (!expectedVideoId) throw new Error("Link do YouTube invalido ...");
    const oembed = await fetchYouTubeOEmbed(youtubeUrl);           // GUARDA 2
    if (!oembed?.title) throw new Error("Nao foi possivel validar ...");
    const analysisPrompt = `...`;
    const response = await getClient().models.generateContent({ model, contents: analysisPrompt, config });
    ...
  };
  \<close>
  The result is the operations performed, in order, and the promise.
\<close>

definition getAnalysisFromWeb ::
  "platform \<Rightarrow> world \<Rightarrow> jsstring \<Rightarrow> mode \<Rightarrow> io list \<times> jsvalue promise" where
  "getAnalysisFromWeb P W youtubeUrl mode =
     (let isDetailed = (mode = Video);
          expectedVideoId = extractYouTubeId (parseURL P) youtubeUrl
      in case expectedVideoId of
           None \<Rightarrow> ([], Rejected InvalidLink)
         | Some expected \<Rightarrow>
             if expected = [] then ([], Rejected InvalidLink)
             else
               (let (ops, oe) = fetchYouTubeOEmbed P W youtubeUrl in
                case oe of
                  None \<Rightarrow> (ops, Rejected UnverifiableVideo)
                | Some m \<Rightarrow>
                    if \<not> truthy (oembedTitle m) then (ops, Rejected UnverifiableVideo)
                    else
                      (let request = webRequest youtubeUrl expected m isDetailed in
                       case getClient W of
                         None \<Rightarrow> (ops, Rejected MissingCredential)
                       | Some apiKey \<Rightarrow>
                           (case generateContent W apiKey request of
                              GenFails \<Rightarrow> (ops @ [IOGenerate request], Rejected TransportError)
                            | GenResponse r \<Rightarrow>
                                (ops @ [IOGenerate request],
                                 identityGuards P youtubeUrl expected (oembedTitle m) r)))))"

section \<open>The frame sampler\<close>

text \<open>
  \<^verbatim>\<open>
  const extractFramesFromVideo = (file: File, maxFrames: number = 20): Promise<string[]> => {
    return new Promise((resolve, reject) => {
      const video = document.createElement("video");
      const canvas = document.createElement("canvas");
      const ctx = canvas.getContext("2d");
      const frames: string[] = [];
      video.src = URL.createObjectURL(file);
      video.onloadedmetadata = () => {
        canvas.width = video.videoWidth;
        canvas.height = video.videoHeight;
        let captured = 0;
        const step = video.duration / maxFrames;
        const capture = () => {
          if (captured < maxFrames) {
            video.currentTime = captured * step;
            video.onseeked = () => {
              ctx?.drawImage(video, 0, 0);
              frames.push(canvas.toDataURL("image/jpeg", 0.5).split(",")[1]);
              captured++;
              capture();
            };
          } else {
            URL.revokeObjectURL(video.src);
            resolve(frames);
          }
        };
        capture();
      };
      video.onerror = () => reject("Erro no processamento do video.");
    });
  };
  \<close>
  The sampler is driven by the events the browser raises on the video element:
  the metadata is loaded (with the duration), a seek is complete (with the picture
  the canvas then encodes), or the element fails. The uploaded file carries the
  events its playback raises. The state holds the variables of the closures, the
  seek targets set so far, whether \<^verbatim>\<open>onseeked\<close> is installed, whether the object URL
  has been revoked, and the promise. Times are exact rationals here (doubles in the
  source); with \<open>maxFrames = 0\<close> no seek is set and \<open>step\<close> is not used.
\<close>

datatype videoEvent = LoadedMetadata rat | Seeked jsstring | VideoError

record File =
  name :: jsstring
  playback :: "videoEvent list"

record sampler =
  frames :: "jsstring list"
  captured :: nat
  step :: rat
  seeks :: "rat list"
  onseeked :: bool
  revoked :: bool
  settled :: "jsstring list promise"

text \<open>\<^verbatim>\<open>resolve\<close> and \<^verbatim>\<open>reject\<close> act on a pending promise only.\<close>

definition settle :: "'a promise \<Rightarrow> 'a promise \<Rightarrow> 'a promise" where
  "settle old new = (case old of Pending \<Rightarrow> new | _ \<Rightarrow> old)"

definition capture :: "nat \<Rightarrow> sampler \<Rightarrow> sampler" where
  "capture maxFrames s =
     (if captured s < maxFrames
      then s\<lparr>seeks := seeks s @ [of_nat (captured s) * step s], onseeked := True\<rparr>
      else s\<lparr>revoked := True, settled := settle (settled s) (Fulfilled (frames s))\<rparr>)"

fun handleEvent :: "nat \<Rightarrow> videoEvent \<Rightarrow> sampler \<Rightarrow> sampler" where
  "handleEvent maxFrames (LoadedMetadata duration) s =
     capture maxFrames (s\<lparr>captured := 0, step := duration / of_nat maxFrames\<rparr>)"
| "handleEvent maxFrames (Seeked picture) s =
     (if onseeked s
      then capture maxFrames (s\<lparr>frames := frames s @ [picture], captured := captured s + 1\<rparr>)
      else s)"
| "handleEvent maxFrames VideoError s =
     s\<lparr>settled := settle (settled s) (Rejected FrameExtractionFailed)\<rparr>"

definition newSampler :: sampler where
  "newSampler =
     \<lparr>frames = [], captured = 0, step = 0, seeks = [], onseeked = False, revoked = False,
      settled = Pending\<rparr>"

definition extractFramesFromVideo :: "File \<Rightarrow> nat \<Rightarrow> sampler" where
  "extractFramesFromVideo file maxFrames =
     fold (handleEvent maxFrames) (playback file) newSampler"

section \<open>The file path\<close>

text \<open>
  \<^verbatim>\<open>
  const getAnalysisFromFile = async (file: File): Promise<Analysis> => {
    const model = "gemini-3-pro-preview";
    const frames = await extractFramesFromVideo(file);
    const imageParts = frames.map(...);
    const response = await getClient().models.generateContent({
      model,
      contents: { parts: [ { text: `... Regras:
  - videoTitle deve ser o nome do arquivo.
  - videoUrl deve ser omitido ou null.
  - Se nao for possivel identificar os times/placar com confianca, retorne um JSON com "error".
  ` }, ...imageParts ] },
      config: { thinkingConfig: { thinkingBudget: 2000 } },
    });
    const analysis = parseJsonResponse<Analysis>(response.text);
    if (!analysis) throw new Error("Falha na analise visual.");
    (analysis as any).videoTitle = file.name;
    (analysis as any).videoUrl = undefined;
    return analysis;
  };
  \<close>
\<close>

definition fileRequest :: "jsstring list \<Rightarrow> genRequest" where
  "fileRequest pictures =
     \<lparr>model = js ''gemini-3-pro-preview'',
      contents = FilePrompt pictures,
      googleSearch = False,
      thinkingBudget = 2000\<rparr>"

definition stampFile :: "platform \<Rightarrow> File \<Rightarrow> response \<Rightarrow> jsvalue promise" where
  "stampFile P file r =
     (let analysis = decodeResponse P r in
      if \<not> truthy analysis then Rejected UnparsableResponse
      else
        (case setProp analysis (js ''videoTitle'') (JStr (name file)) of
           None \<Rightarrow> Rejected TypeError
         | Some titled \<Rightarrow>
             (case setProp titled (js ''videoUrl'') JUndefined of
                None \<Rightarrow> Rejected TypeError
              | Some result \<Rightarrow> Fulfilled result)))"

definition getAnalysisFromFile ::
  "platform \<Rightarrow> world \<Rightarrow> File \<Rightarrow> io list \<times> jsvalue promise" where
  "getAnalysisFromFile P W file =
     (let ops = [IOVideo (name file)] in
      case settled (extractFramesFromVideo file 20) of
        Pending \<Rightarrow> (ops, Pending)
      | Rejected e \<Rightarrow> (ops, Rejected e)
      | Fulfilled pictures \<Rightarrow>
          (let request = fileRequest pictures in
           case getClient W of
             None \<Rightarrow> (ops, Rejected MissingCredential)
           | Some apiKey \<Rightarrow>
               (case generateContent W apiKey request of
                  GenFails \<Rightarrow> (ops @ [IOGenerate request], Rejected TransportError)
                | GenResponse r \<Rightarrow> (ops @ [IOGenerate request], stampFile P file r))))"

section \<open>The entry point\<close>

text \<open>
  \<^verbatim>\<open>
  export const analyzeFootballMatch = async (input: any): Promise<Analysis> => {
    if (input.type === "file") return await getAnalysisFromFile(input.file);
    return await getAnalysisFromWeb(input.url, input.mode);
  };
  \<close>
  A missing mode is the default \<^verbatim>\<open>"web"\<close>.
\<close>

datatype input = FileInput File | LinkInput jsstring "mode option"

fun analyzeFootballMatch :: "platform \<Rightarrow> world \<Rightarrow> input \<Rightarrow> io list \<times> jsvalue promise" where
  "analyzeFootballMatch P W (FileInput file) = getAnalysisFromFile P W file"
| "analyzeFootballMatch P W (LinkInput url m) =
     getAnalysisFromWeb P W url (case m of None \<Rightarrow> Web | Some md \<Rightarrow> md)"

section \<open>A platform and worlds for evaluation\<close>

text \<open>
  \<open>asciiLower\<close> is \<^verbatim>\<open>toLowerCase\<close> on strings of ASCII code units; the encoder is given
  at the URLs evaluated below.
\<close>

definition asciiLower :: "jsstring \<Rightarrow> jsstring" where
  "asciiLower s = map (\<lambda>c. if 0x0041 \<le> c \<and> c \<le> 0x005A then c + 0x0020 else c) s"

definition exampleEncoded :: "(jsstring \<times> jsstring) list" where
  "exampleEncoded =
     [(js ''https://www.youtube.com/watch?v=ABC123'',
       js ''https%3A%2F%2Fwww.youtube.com%2Fwatch%3Fv%3DABC123''),
      (js ''https://youtu.be/abc'', js ''https%3A%2F%2Fyoutu.be%2Fabc'')]"

definition examplePlatform :: platform where
  "examplePlatform =
     \<lparr>parseURL = exampleParseURL,
      jsonParse = exampleJsonParse,
      toLowerCase = asciiLower,
      encodeURIComponent = map_of exampleEncoded\<rparr>"

text \<open>A world with one credential (or none), one answer of the network and one of the
  generation service.\<close>

definition exampleWorld :: "jsstring option \<Rightarrow> fetchResult \<Rightarrow> genResult \<Rightarrow> world" where
  "exampleWorld key fetched generated =
     \<lparr>viteKey = key, procKey = None, procGeminiKey = None,
      fetch = (\<lambda>endpoint. fetched),
      generateContent = (\<lambda>apiKey request. generated)\<rparr>"

definition verifiedFinal :: fetchResult where
  "verifiedFinal =
     FetchResponse True (exampleJsonParse (js ''{\"title\":\"Final\",\"author_name\":\"TV\"}''))"

definition answer :: "jsstring \<Rightarrow> genResult" where
  "answer t = GenResponse \<lparr>responseText = Some t, groundingChunks = None\<rparr>"

definition groundedAnswer :: "jsstring \<Rightarrow> genResult" where
  "groundedAnswer t =
     GenResponse
       \<lparr>responseText = Some t,
        groundingChunks =
          Some [Chunk (Some \<lparr>webTitle = Some (js ''A''), webUri = Some (js ''a.example'')\<rparr>),
                Chunk None]\<rparr>"

definition exampleLink :: jsstring where
  "exampleLink = js ''https://www.youtube.com/watch?v=ABC123''"

definition exampleFile :: "videoEvent list \<Rightarrow> File" where
  "exampleFile events = \<lparr>name = js ''match.mp4'', playback = events\<rparr>"

definition echoedText :: jsstring where
  "echoedText =
     js ''Here: '' @ js ''{\"videoTitle\":\"Final\",\"videoUrl\":\"x\",\"videoId\":\"ABC123\"}''"

definition exampleDocument :: jsvalue where
  "exampleDocument =
     JObj [(js ''videoTitle'', JStr (js ''Final'')),
           (js ''videoUrl'', JStr exampleLink),
           (js ''videoId'', JStr (js ''ABC123'')),
           (js ''sources'',
              JArr [sourceValue (videoSource exampleLink),
                    sourceValue \<lparr>title = Some (js ''A''), uri = js ''a.example''\<rparr>] [])]"

definition exampleVideo :: File where
  "exampleVideo = exampleFile (LoadedMetadata 10 # replicate 20 (Seeked (js ''AA'')))"

section \<open>Properties of the identifier extractor\<close>

lemma pathParts_nonempty: "p \<in> set (pathParts u) \<Longrightarrow> p \<noteq> []"
  by (simp add: pathParts_def)

lemma indexOf_ge_minus1: "indexOf xs x \<ge> -1"
  by (induction xs) (auto simp: Let_def)

lemma indexOf_neg_iff: "indexOf xs x < 0 \<longleftrightarrow> x \<notin> set xs"
proof (induction xs)
  case Nil
  show ?case by simp
next
  case (Cons y ys)
  have "indexOf ys x \<ge> -1" by (rule indexOf_ge_minus1)
  with Cons show ?case by (auto simp: Let_def)
qed

lemma elemAt_Cons_Suc: "0 \<le> i \<Longrightarrow> elemAt (y # ys) (i + 1) = elemAt ys i"
  by (auto simp: elemAt_def nat_add_distrib)

lemma segmentAfter_indexOf:
  "segmentAfter seg parts =
     (if indexOf parts seg \<ge> 0 then elemAt parts (indexOf parts seg + 1) else None)"
proof (induction parts)
  case Nil
  show ?case by (simp add: segmentAfter_def)
next
  case (Cons p ps)
  show ?case
  proof (cases "p = seg")
    case True
    then show ?thesis
      by (cases ps) (simp_all add: segmentAfter_def elemAt_def)
  next
    case False
    have ge: "indexOf ps seg \<ge> -1" by (rule indexOf_ge_minus1)
    show ?thesis
    proof (cases "indexOf ps seg < 0")
      case True
      with False Cons show ?thesis
        by (simp add: segmentAfter_def Let_def)
    next
      case neg: False
      then have nn: "0 \<le> indexOf ps seg" by simp
      have "elemAt (p # ps) (indexOf ps seg + 1 + 1) = elemAt ps (indexOf ps seg + 1)"
        using nn by (intro elemAt_Cons_Suc) simp
      with False neg Cons show ?thesis
        by (simp add: segmentAfter_def Let_def)
    qed
  qed
qed

lemma elemAt_pathParts_truthy:
  "truthyStr (elemAt (pathParts u) i) \<longleftrightarrow> elemAt (pathParts u) i \<noteq> None"
proof (cases "elemAt (pathParts u) i")
  case None
  then show ?thesis by (simp add: truthyStr_def)
next
  case (Some p)
  then have "p \<in> set (pathParts u)"
    by (auto simp: elemAt_def split: if_splits)
  then have "p \<noteq> []" by (rule pathParts_nonempty)
  with Some show ?thesis by (simp add: truthyStr_def)
qed

lemma elemAt_zero: "elemAt xs 0 = (case xs of [] \<Rightarrow> None | x # _ \<Rightarrow> Some x)"
  by (cases xs) (simp_all add: elemAt_def)

lemma shortenedId_None_parts:
  "endsWith (hostname u) (js ''youtu.be'') \<Longrightarrow> shortenedId u = None \<Longrightarrow> pathParts u = []"
  by (auto simp: shortenedId_def split: list.splits)

lemma extractYouTubeId_parsed:
  assumes "parse url = Some u"
  shows "extractYouTubeId parse url =
           firstSome [canonicalId u, shortenedId u, shortsId u, embedId u]"
proof (cases "canonicalId u")
  case (Some v)
  then show ?thesis using assms
    by (auto simp: extractYouTubeId_def canonicalId_def searchParams_get_def truthyStr_def
             split: option.splits if_splits)
next
  case None
  then have nov: "\<not> truthyStr (searchParams_get u (js ''v''))"
    by (auto simp: canonicalId_def searchParams_get_def truthyStr_def
             split: option.splits if_splits)
  show ?thesis
  proof (cases "endsWith (hostname u) (js ''youtu.be'')")
    case True
    show ?thesis
    proof (cases "pathParts u")
      case Nil
      with True None nov assms show ?thesis
        by (simp add: extractYouTubeId_def shortenedId_def shortsId_def embedId_def
                      segmentAfter_def elemAt_zero truthyStr_def)
    next
      case (Cons p ps)
      then have "p \<noteq> []" using pathParts_nonempty [of p u] by simp
      with Cons True None nov assms show ?thesis
        by (simp add: extractYouTubeId_def shortenedId_def elemAt_zero truthyStr_def)
    qed
  next
    case False
    then have sh: "shortenedId u = None" by (simp add: shortenedId_def)
    have "extractYouTubeId parse url =
            (if indexOf (pathParts u) (js ''shorts'') \<ge> 0
                \<and> elemAt (pathParts u) (indexOf (pathParts u) (js ''shorts'') + 1) \<noteq> None
             then elemAt (pathParts u) (indexOf (pathParts u) (js ''shorts'') + 1)
             else if indexOf (pathParts u) (js ''embed'') \<ge> 0
                \<and> elemAt (pathParts u) (indexOf (pathParts u) (js ''embed'') + 1) \<noteq> None
             then elemAt (pathParts u) (indexOf (pathParts u) (js ''embed'') + 1)
             else None)"
      using assms nov False
      by (auto simp: extractYouTubeId_def Let_def elemAt_pathParts_truthy)
    also have "\<dots> = firstSome [shortsId u, embedId u]"
      by (cases "shortsId u"; cases "embedId u")
         (auto simp: shortsId_def embedId_def segmentAfter_indexOf split: if_splits)
    finally show ?thesis using None sh by simp
  qed
qed

text \<open>
  C10: a non-empty \<open>v\<close> query parameter takes precedence over every path-based shape:
  whenever the URL parses and its query carries a non-empty \<open>v\<close>, the extractor
  returns that value, whatever the host and the path are.
\<close>

theorem extractYouTubeId_v_precedence:
  assumes "parse url = Some u"
    and "searchParams_get u (js ''v'') = Some v"
    and "v \<noteq> []"
  shows "extractYouTubeId parse url = Some v"
  using assms by (simp add: extractYouTubeId_def truthyStr_def)

theorem extractYouTubeId_v_precedence_witness:
  "exampleParseURL (js ''https://youtu.be/abc?v=def'')
     = Some \<lparr>hostname = js ''youtu.be'', pathname = js ''/abc'',
             searchParams = [(js ''v'', js ''def'')]\<rparr>
   \<and> extractYouTubeId exampleParseURL (js ''https://youtu.be/abc?v=def'') = Some (js ''def'')
   \<and> js ''def'' \<noteq> js ''abc''"
proof -
  let ?u = "\<lparr>hostname = js ''youtu.be'', pathname = js ''/abc'',
             searchParams = [(js ''v'', js ''def'')]\<rparr>"
  have p: "exampleParseURL (js ''https://youtu.be/abc?v=def'') = Some ?u"
    by (simp add: exampleParseURL_def exampleURLs_def js_def)
  have g: "searchParams_get ?u (js ''v'') = Some (js ''def'')"
    by (simp add: searchParams_get_def)
  have n: "js ''def'' \<noteq> []" by (simp add: js_def)
  have d: "js ''def'' \<noteq> js ''abc''" by (simp add: js_def)
  have "extractYouTubeId exampleParseURL (js ''https://youtu.be/abc?v=def'') = Some (js ''def'')"
    using p g n by (rule extractYouTubeId_v_precedence)
  with p d show ?thesis by simp
qed

text \<open>
  C5, as stated, fails: a URL can carry one identifier in the shortened shape and
  another in its \<open>v\<close> parameter, and the extractor returns the parameter. At
  \<^verbatim>\<open>https://youtu.be/abc?v=def\<close> the first non-empty path segment on the shortened
  domain is \<open>abc\<close>, and the extractor does not return it.
\<close>

theorem extractYouTubeId_shapes_counterexample:
  "exampleParseURL (js ''https://youtu.be/abc?v=def'')
     = Some \<lparr>hostname = js ''youtu.be'', pathname = js ''/abc'',
             searchParams = [(js ''v'', js ''def'')]\<rparr>
   \<and> shortenedId \<lparr>hostname = js ''youtu.be'', pathname = js ''/abc'',
                   searchParams = [(js ''v'', js ''def'')]\<rparr> = Some (js ''abc'')
   \<and> extractYouTubeId exampleParseURL (js ''https://youtu.be/abc?v=def'')
       \<noteq> Some (js ''abc'')"
  by (simp add: exampleParseURL_def exampleURLs_def extractYouTubeId_def shortenedId_def
                searchParams_get_def truthyStr_def endsWith_def pathParts_def js_def)

text \<open>
  C5, amended: the extractor is total (an unparseable URL gives no identifier, nothing
  is thrown), and on a parseable URL it returns the identifier of the first shape that
  matches, in this order: a non-empty \<open>v\<close> query parameter on any host; on a host
  ending in \<open>youtu.be\<close>, the first non-empty path segment; the segment following the
  first \<open>shorts\<close> path segment; the segment following the first \<open>embed\<close> path
  segment. A URL matching none of the shapes gives no identifier.
\<close>

theorem extractYouTubeId_shape_order:
  "extractYouTubeId parse url =
     (case parse url of
        None \<Rightarrow> None
      | Some u \<Rightarrow> firstSome [canonicalId u, shortenedId u, shortsId u, embedId u])"
proof (cases "parse url")
  case None
  then show ?thesis by (simp add: extractYouTubeId_def)
next
  case (Some u)
  then show ?thesis by (simp add: extractYouTubeId_parsed)
qed

theorem extractYouTubeId_shape_order_witness:
  "extractYouTubeId exampleParseURL (js ''https://www.youtube.com/watch?v=ABC123'')
     = Some (js ''ABC123'')
   \<and> extractYouTubeId exampleParseURL (js ''https://youtu.be/abc'') = Some (js ''abc'')
   \<and> extractYouTubeId exampleParseURL (js ''https://www.youtube.com/shorts/abc'')
       = Some (js ''abc'')
   \<and> extractYouTubeId exampleParseURL (js ''https://www.youtube.com/embed/abc'')
       = Some (js ''abc'')
   \<and> extractYouTubeId exampleParseURL (js ''https://www.youtube.com/'') = None
   \<and> extractYouTubeId exampleParseURL (js ''not a url'') = None"
proof -
  have 1: "extractYouTubeId exampleParseURL (js ''https://www.youtube.com/watch?v=ABC123'')
             = Some (js ''ABC123'')"
    unfolding extractYouTubeId_shape_order [of exampleParseURL]
    by (simp add: exampleParseURL_def exampleURLs_def canonicalId_def js_def)
  have 2: "extractYouTubeId exampleParseURL (js ''https://youtu.be/abc'') = Some (js ''abc'')"
    unfolding extractYouTubeId_shape_order [of exampleParseURL]
    by (simp add: exampleParseURL_def exampleURLs_def canonicalId_def shortenedId_def
                  endsWith_def pathParts_def js_def)
  have 3: "extractYouTubeId exampleParseURL (js ''https://www.youtube.com/shorts/abc'')
             = Some (js ''abc'')"
    unfolding extractYouTubeId_shape_order [of exampleParseURL]
    by (simp add: exampleParseURL_def exampleURLs_def canonicalId_def shortenedId_def
                  shortsId_def segmentAfter_def endsWith_def pathParts_def js_def)
  have 4: "extractYouTubeId exampleParseURL (js ''https://www.youtube.com/embed/abc'')
             = Some (js ''abc'')"
    unfolding extractYouTubeId_shape_order [of exampleParseURL]
    by (simp add: exampleParseURL_def exampleURLs_def canonicalId_def shortenedId_def
                  shortsId_def embedId_def segmentAfter_def endsWith_def pathParts_def js_def)
  have 5: "extractYouTubeId exampleParseURL (js ''https://www.youtube.com/'') = None"
    unfolding extractYouTubeId_shape_order [of exampleParseURL]
    by (simp add: exampleParseURL_def exampleURLs_def canonicalId_def shortenedId_def
                  shortsId_def embedId_def segmentAfter_def endsWith_def pathParts_def js_def)
  have 6: "extractYouTubeId exampleParseURL (js ''not a url'') = None"
    unfolding extractYouTubeId_shape_order [of exampleParseURL]
    by (simp add: exampleParseURL_def exampleURLs_def js_def)
  from 1 2 3 4 5 6 show ?thesis by simp
qed

section \<open>Properties of the response parser\<close>

lemma indexOf_first: "x \<notin> set xs \<Longrightarrow> indexOf (xs @ x # ys) x = int (length xs)"
  by (induction xs) (auto simp: Let_def)

lemma lastIndexOf_last:
  assumes "x \<notin> set ys"
  shows "lastIndexOf (xs @ x # ys) x = int (length xs)"
proof -
  have "indexOf (rev ys @ x # rev xs) x = int (length ys)"
    using assms indexOf_first [of x "rev ys" "rev xs"] by simp
  then show ?thesis by (simp add: lastIndexOf_def)
qed

lemma indexOf_minus1_iff: "indexOf xs x = -1 \<longleftrightarrow> x \<notin> set xs"
proof -
  have "indexOf xs x \<ge> -1" by (rule indexOf_ge_minus1)
  then have "indexOf xs x = -1 \<longleftrightarrow> indexOf xs x < 0" by linarith
  then show ?thesis by (simp add: indexOf_neg_iff)
qed

lemma lastIndexOf_minus1_iff: "lastIndexOf xs x = -1 \<longleftrightarrow> x \<notin> set xs"
proof (cases "indexOf (rev xs) x < 0")
  case True
  then show ?thesis using indexOf_neg_iff [of "rev xs" x] by (simp add: lastIndexOf_def)
next
  case False
  then have mem: "x \<in> set xs" using indexOf_neg_iff [of "rev xs" x] by simp
  have "indexOf (rev xs) x < int (length xs)"
  proof -
    have "\<And>ys. x \<in> set ys \<Longrightarrow> indexOf ys x < int (length ys)"
    proof -
      fix ys show "x \<in> set ys \<Longrightarrow> indexOf ys x < int (length ys)"
        by (induction ys) (auto simp: Let_def indexOf_neg_iff)
    qed
    from this [of "rev xs"] mem show ?thesis by simp
  qed
  with False mem show ?thesis by (simp add: lastIndexOf_def)
qed

lemma substring_middle:
  "substring (pre @ obj @ post) (int (length pre)) (int (length pre) + int (length obj)) = obj"
proof -
  let ?n = "int (length (pre @ obj @ post))"
  let ?a = "int (length pre)"
  let ?b = "int (length pre) + int (length obj)"
  have a: "min (max ?a 0) ?n = ?a" by simp
  have b: "min (max ?b 0) ?n = ?b" by simp
  have lo: "min ?a ?b = ?a" by simp
  have hi: "max ?a ?b = ?b" by simp
  have "substring (pre @ obj @ post) ?a ?b = take (nat (?b - ?a)) (drop (nat ?a) (pre @ obj @ post))"
    unfolding substring_def Let_def a b lo hi ..
  then show ?thesis by simp
qed

lemma parseJsonResponse_wrapped:
  assumes "obj \<noteq> []" "hd obj = LBRACE" "last obj = RBRACE"
    and "LBRACE \<notin> set pre" "RBRACE \<notin> set post"
  shows "parseJsonResponse decode (pre @ obj @ post)
           = (case decode obj of None \<Rightarrow> JNull | Some d \<Rightarrow> d)"
proof -
  from assms(1,2) obtain r where o1: "obj = LBRACE # r" by (cases obj) auto
  from assms(1,3) obtain l where o2: "obj = l @ [RBRACE]"
    by (metis append_butlast_last_id)
  have s: "indexOf (pre @ obj @ post) LBRACE = int (length pre)"
    using assms(4) indexOf_first [of LBRACE pre "r @ post"] by (simp add: o1)
  have "lastIndexOf ((pre @ l) @ RBRACE # post) RBRACE = int (length (pre @ l))"
    using assms(5) by (rule lastIndexOf_last)
  then have e: "lastIndexOf (pre @ obj @ post) RBRACE = int (length pre) + int (length obj) - 1"
    by (simp add: o2)
  have "substring (pre @ obj @ post) (int (length pre))
          (int (length pre) + int (length obj) - 1 + 1) = obj"
    using substring_middle [of pre obj post] by simp
  moreover have "int (length pre) + int (length obj) - 1 \<noteq> -1"
    using assms(1) by (cases obj) simp_all
  ultimately show ?thesis using s e
    by (simp add: parseJsonResponse_def Let_def)
qed

text \<open>
  C6, as stated, fails: prose around the object is not arbitrary. In the text
  \<^verbatim>\<open>{} :-}\<close> the only JSON object is \<^verbatim>\<open>{}\<close>, followed by prose that holds a closing
  brace; the parser cuts from the first \<^verbatim>\<open>{\<close> to the last \<^verbatim>\<open>}\<close>, the cut does not
  decode, and the result is "no document" instead of the object.
\<close>

theorem parseJsonResponse_prose_counterexample:
  "exampleJsonParse (js ''{}'') = Some (JObj [])
   \<and> exampleJsonParse (js ''{} :-}'') = None
   \<and> parseJsonResponse exampleJsonParse (js ''{}'' @ js '' :-}'') = JNull"
  by (simp add: parseJsonResponse_def lastIndexOf_def substring_def exampleJsonParse_def
                exampleJsonTexts_def js_def Let_def)

text \<open>
  C6, amended: for every text made of prose without \<^verbatim>\<open>{\<close>, then a JSON object (a text
  from \<^verbatim>\<open>{\<close> to \<^verbatim>\<open>}\<close> that decodes), then prose without \<^verbatim>\<open>}\<close>, the parser returns
  exactly the decoded object; for every text with no \<^verbatim>\<open>{\<close> or no \<^verbatim>\<open>}\<close>, and for every
  text whose cut from the first \<^verbatim>\<open>{\<close> to the last \<^verbatim>\<open>}\<close> fails to decode, it returns
  "no document"; it never throws.
\<close>

theorem parseJsonResponse_extracts:
  "(obj \<noteq> [] \<and> hd obj = LBRACE \<and> last obj = RBRACE \<and> decode obj = Some d
      \<and> LBRACE \<notin> set pre \<and> RBRACE \<notin> set post
      \<longrightarrow> parseJsonResponse decode (pre @ obj @ post) = d)
   \<and> (LBRACE \<notin> set text \<or> RBRACE \<notin> set text
      \<longrightarrow> parseJsonResponse decode text = JNull)
   \<and> (decode (substring text (indexOf text LBRACE) (lastIndexOf text RBRACE + 1)) = None
      \<longrightarrow> parseJsonResponse decode text = JNull)"
proof (intro conjI impI)
  assume a: "obj \<noteq> [] \<and> hd obj = LBRACE \<and> last obj = RBRACE \<and> decode obj = Some d
      \<and> LBRACE \<notin> set pre \<and> RBRACE \<notin> set post"
  then have "parseJsonResponse decode (pre @ obj @ post)
               = (case decode obj of None \<Rightarrow> JNull | Some d \<Rightarrow> d)"
    by (intro parseJsonResponse_wrapped) simp_all
  with a show "parseJsonResponse decode (pre @ obj @ post) = d" by simp
next
  assume "LBRACE \<notin> set text \<or> RBRACE \<notin> set text"
  then have "indexOf text LBRACE = -1 \<or> lastIndexOf text RBRACE = -1"
    by (simp add: indexOf_minus1_iff lastIndexOf_minus1_iff)
  then show "parseJsonResponse decode text = JNull"
    by (auto simp: parseJsonResponse_def Let_def)
next
  assume "decode (substring text (indexOf text LBRACE) (lastIndexOf text RBRACE + 1)) = None"
  then show "parseJsonResponse decode text = JNull"
    by (simp add: parseJsonResponse_def Let_def)
qed

theorem parseJsonResponse_extracts_witness:
  "parseJsonResponse exampleJsonParse (js ''Sure: '' @ js ''{\"error\":\"unsure\"}'' @ js '' Bye.'')
     = JObj [(js ''error'', JStr (js ''unsure''))]
   \<and> parseJsonResponse exampleJsonParse (js ''no braces'') = JNull
   \<and> parseJsonResponse exampleJsonParse (js ''{} :-}'') = JNull"
proof -
  let ?obj = "js ''{\"error\":\"unsure\"}''"
  let ?d = "JObj [(js ''error'', JStr (js ''unsure''))]"
  have h1: "?obj \<noteq> [] \<and> hd ?obj = LBRACE \<and> last ?obj = RBRACE
              \<and> exampleJsonParse ?obj = Some ?d
              \<and> LBRACE \<notin> set (js ''Sure: '') \<and> RBRACE \<notin> set (js '' Bye.'')"
    by (simp add: exampleJsonParse_def exampleJsonTexts_def js_def)
  have h2: "LBRACE \<notin> set (js ''no braces'') \<or> RBRACE \<notin> set (js ''no braces'')"
    by (simp add: js_def)
  have h3: "exampleJsonParse (substring (js ''{} :-}'') (indexOf (js ''{} :-}'') LBRACE)
              (lastIndexOf (js ''{} :-}'') RBRACE + 1)) = None"
    by (simp add: substring_def lastIndexOf_def exampleJsonParse_def exampleJsonTexts_def
                  js_def Let_def)
  from parseJsonResponse_extracts
         [of ?obj exampleJsonParse ?d "js ''Sure: ''" "js '' Bye.''" "js ''no braces''"] h1 h2
  have a: "parseJsonResponse exampleJsonParse (js ''Sure: '' @ ?obj @ js '' Bye.'') = ?d"
    and b: "parseJsonResponse exampleJsonParse (js ''no braces'') = JNull"
    by blast+
  from parseJsonResponse_extracts
         [of "[]" exampleJsonParse JNull "[]" "[]" "js ''{} :-}''"] h3
  have c: "parseJsonResponse exampleJsonParse (js ''{} :-}'') = JNull"
    by blast
  from a b c show ?thesis by simp
qed

section \<open>Properties of the source reconciler\<close>

lemma findIndex_ge: "findIndex p xs \<ge> -1"
  by (induction xs) (auto simp: Let_def)

lemma findIndex_append:
  "findIndex p (pre @ x # ys) =
     (if \<exists>y\<in>set pre. p y then findIndex p pre
      else if p x then int (length pre)
      else (let i = findIndex p ys in if i < 0 then -1 else int (length pre) + 1 + i))"
proof (induction pre)
  case Nil
  show ?case by (simp add: Let_def)
next
  case (Cons a pre)
  have "findIndex p pre \<ge> -1" by (rule findIndex_ge)
  with Cons show ?case by (auto simp: Let_def)
qed

lemma findIndex_less: "\<exists>y\<in>set xs. p y \<Longrightarrow> findIndex p xs < int (length xs)"
proof (induction xs)
  case Nil
  then show ?case by simp
next
  case (Cons a xs)
  then show ?case by (cases "p a") (auto simp: Let_def)
qed

lemma keepSource_here:
  "keepSource (pre @ x # rest) (length pre, x)
     \<longleftrightarrow> trim (uri x) \<noteq> [] \<and> trim (uri x) \<notin> (\<lambda>s. trim (uri s)) ` set pre"
proof (cases "\<exists>y\<in>set pre. trim (uri y) = trim (uri x)")
  case True
  then have "findIndex (\<lambda>s. trim (uri s) = trim (uri x)) pre < int (length pre)"
    by (rule findIndex_less)
  moreover from True have "trim (uri x) \<in> (\<lambda>s. trim (uri s)) ` set pre" by (metis imageI)
  ultimately show ?thesis using True by (simp add: keepSource_def findIndex_append)
next
  case False
  then show ?thesis by (auto simp: keepSource_def findIndex_append)
qed

lemma keepFirst_insert_Nil: "keepFirst (insert [] seen) rest = keepFirst seen rest"
proof (induction rest arbitrary: seen)
  case Nil
  show ?case by simp
next
  case (Cons x rest)
  have "keepFirst (insert (trim (uri x)) (insert [] seen)) rest
          = keepFirst (insert (trim (uri x)) seen) rest"
    using Cons [of "insert (trim (uri x)) seen"] by (simp add: insert_commute)
  with Cons show ?case by simp
qed

lemma filter_enumerate_keepFirst:
  "map snd (filter (keepSource (pre @ rest)) (enumerate (length pre) rest))
   = keepFirst ((\<lambda>s. trim (uri s)) ` set pre) rest"
proof (induction rest arbitrary: pre)
  case Nil
  show ?case by simp
next
  case (Cons x rest)
  have "map snd (filter (keepSource ((pre @ [x]) @ rest)) (enumerate (length (pre @ [x])) rest))
          = keepFirst ((\<lambda>s. trim (uri s)) ` set (pre @ [x])) rest"
    by (rule Cons)
  then have IH: "map snd (filter (keepSource (pre @ x # rest)) (enumerate (Suc (length pre)) rest))
          = keepFirst (insert (trim (uri x)) ((\<lambda>s. trim (uri s)) ` set pre)) rest"
    by simp
  show ?case
  proof (cases "keepSource (pre @ x # rest) (length pre, x)")
    case True
    with IH show ?thesis using keepSource_here [of pre x rest] by simp
  next
    case False
    then have skip: "trim (uri x) = [] \<or> trim (uri x) \<in> (\<lambda>s. trim (uri s)) ` set pre"
      using keepSource_here [of pre x rest] by blast
    then have "keepFirst (insert (trim (uri x)) ((\<lambda>s. trim (uri s)) ` set pre)) rest
                 = keepFirst ((\<lambda>s. trim (uri s)) ` set pre) rest"
      by (auto simp: keepFirst_insert_Nil insert_absorb)
    with False IH skip show ?thesis by auto
  qed
qed

lemma uniqueSources_keepFirst:
  "uniqueSources u xs = keepFirst {} (videoSource u # xs)"
  using filter_enumerate_keepFirst [of "[]" "videoSource u # xs"]
  by (simp add: uniqueSources_def Let_def)

lemma keepFirst_subset_idem:
  "S \<subseteq> T \<Longrightarrow> keepFirst S (keepFirst T xs) = keepFirst T xs"
proof (induction xs arbitrary: S T)
  case Nil
  show ?case by simp
next
  case (Cons x xs)
  show ?case
  proof (cases "trim (uri x) = [] \<or> trim (uri x) \<in> T")
    case True
    with Cons show ?thesis by auto
  next
    case False
    with Cons.prems have "trim (uri x) \<notin> S" by blast
    moreover have "keepFirst (insert (trim (uri x)) S) (keepFirst (insert (trim (uri x)) T) xs)
                     = keepFirst (insert (trim (uri x)) T) xs"
      using Cons.prems by (intro Cons.IH) blast
    ultimately show ?thesis using False by simp
  qed
qed

lemma keepFirst_keys:
  "s \<in> set (keepFirst S xs) \<Longrightarrow> trim (uri s) \<noteq> [] \<and> trim (uri s) \<notin> S"
  by (induction xs arbitrary: S) (auto split: if_splits)

lemma keepFirst_id:
  "distinct (map (\<lambda>s. trim (uri s)) xs) \<Longrightarrow> [] \<notin> set (map (\<lambda>s. trim (uri s)) xs)
   \<Longrightarrow> (\<lambda>s. trim (uri s)) ` set xs \<inter> S = {} \<Longrightarrow> keepFirst S xs = xs"
proof (induction xs arbitrary: S)
  case Nil
  show ?case by simp
next
  case (Cons x xs)
  have "keepFirst (insert (trim (uri x)) S) xs = xs"
    using Cons.prems by (intro Cons.IH) auto
  with Cons.prems show ?case by auto
qed

lemma uniqueSources_twice: "uniqueSources u (uniqueSources u xs) = uniqueSources u xs"
proof (cases "trim u = []")
  case True
  then show ?thesis
    by (simp add: uniqueSources_keepFirst videoSource_def keepFirst_subset_idem)
next
  case False
  then show ?thesis
    by (simp add: uniqueSources_keepFirst videoSource_def keepFirst_subset_idem)
qed

lemma uniqueSources_head:
  "trim u \<noteq> [] \<Longrightarrow> uniqueSources u xs = videoSource u # keepFirst {trim u} xs"
  by (simp add: uniqueSources_keepFirst videoSource_def)

lemma uniqueSources_blank:
  "trim u = [] \<Longrightarrow> uniqueSources u xs = keepFirst {} xs"
  by (simp add: uniqueSources_keepFirst videoSource_def)

lemma uniqueSources_without:
  "uniqueSources u (withoutVideoSource u (uniqueSources u xs)) = uniqueSources u xs"
proof (cases "trim u = []")
  case False
  then show ?thesis
    by (simp add: uniqueSources_head withoutVideoSource_def keepFirst_subset_idem)
next
  case True
  have nohd: "withoutVideoSource u (keepFirst {} xs) = keepFirst {} xs"
  proof (cases "keepFirst {} xs")
    case Nil
    then show ?thesis by (simp add: withoutVideoSource_def)
  next
    case (Cons s rest)
    then have "s \<in> set (keepFirst {} xs)" by simp
    then have "trim (uri s) \<noteq> []" using keepFirst_keys by blast
    with True have "s \<noteq> videoSource u" by (auto simp: videoSource_def)
    with Cons show ?thesis by (simp add: withoutVideoSource_def)
  qed
  with True show ?thesis
    by (simp add: uniqueSources_blank keepFirst_subset_idem)
qed

lemma uniqueSources_fixed:
  assumes "srcs \<noteq> []" "hd srcs = videoSource u" "deduplicated srcs"
  shows "uniqueSources u srcs = srcs"
proof -
  from assms(1,2) obtain rest where s: "srcs = videoSource u # rest" by (cases srcs) auto
  from assms(3) s have k: "trim u \<noteq> []" by (auto simp: deduplicated_def videoSource_def)
  have "keepFirst {trim u} rest = rest"
    using assms(3) s by (intro keepFirst_id) (auto simp: deduplicated_def videoSource_def)
  with k s show ?thesis
    by (simp add: uniqueSources_keepFirst videoSource_def)
qed

lemma uniqueSources_tl:
  assumes "trim u \<noteq> []"
  shows "withoutVideoSource u (uniqueSources u xs) = tl (uniqueSources u xs)"
  using assms by (simp add: uniqueSources_head withoutVideoSource_def)

text \<open>
  C9: the reconciler is idempotent on its own output. For every URL \<open>u\<close> and all
  grounding sources \<open>xs\<close>: reconciling the output without the source of the video
  itself gives the output again (that source is the first element whenever the
  trimmed URL is not empty, and removing it is then taking the tail); so does
  reconciling the output as it is; and an already deduplicated list that starts with
  the source of the video comes back unchanged.
\<close>

theorem uniqueSources_idempotent:
  "uniqueSources u (withoutVideoSource u (uniqueSources u xs)) = uniqueSources u xs
   \<and> (trim u \<noteq> [] \<longrightarrow>
        hd (uniqueSources u xs) = videoSource u
        \<and> uniqueSources u (tl (uniqueSources u xs)) = uniqueSources u xs)
   \<and> uniqueSources u (uniqueSources u xs) = uniqueSources u xs
   \<and> (srcs \<noteq> [] \<and> hd srcs = videoSource u \<and> deduplicated srcs
        \<longrightarrow> uniqueSources u srcs = srcs)"
proof -
  have 1: "uniqueSources u (withoutVideoSource u (uniqueSources u xs)) = uniqueSources u xs"
    by (rule uniqueSources_without)
  have 2: "trim u \<noteq> [] \<longrightarrow>
        hd (uniqueSources u xs) = videoSource u
        \<and> uniqueSources u (tl (uniqueSources u xs)) = uniqueSources u xs"
  proof
    assume nb: "trim u \<noteq> []"
    then have "hd (uniqueSources u xs) = videoSource u"
      by (simp add: uniqueSources_head)
    moreover have "uniqueSources u (tl (uniqueSources u xs)) = uniqueSources u xs"
      using 1 uniqueSources_tl [OF nb, of xs] by simp
    ultimately show "hd (uniqueSources u xs) = videoSource u
        \<and> uniqueSources u (tl (uniqueSources u xs)) = uniqueSources u xs" ..
  qed
  have 3: "uniqueSources u (uniqueSources u xs) = uniqueSources u xs"
    by (rule uniqueSources_twice)
  have 4: "srcs \<noteq> [] \<and> hd srcs = videoSource u \<and> deduplicated srcs
        \<longrightarrow> uniqueSources u srcs = srcs"
    using uniqueSources_fixed [of srcs u] by blast
  from 1 2 3 4 show ?thesis by blast
qed

theorem uniqueSources_idempotent_witness:
  "uniqueSources (js ''https://youtu.be/abc'')
     [\<lparr>title = Some (js ''A''), uri = js '' a.example ''\<rparr>,
      \<lparr>title = Some (js ''B''), uri = js ''a.example''\<rparr>,
      \<lparr>title = None, uri = js ''  ''\<rparr>,
      \<lparr>title = Some (js ''D''), uri = js ''https://youtu.be/abc''\<rparr>]
     = [videoSource (js ''https://youtu.be/abc''),
        \<lparr>title = Some (js ''A''), uri = js '' a.example ''\<rparr>]
   \<and> uniqueSources (js ''https://youtu.be/abc'')
        [\<lparr>title = Some (js ''A''), uri = js '' a.example ''\<rparr>]
     = [videoSource (js ''https://youtu.be/abc''),
        \<lparr>title = Some (js ''A''), uri = js '' a.example ''\<rparr>]
   \<and> trim (js ''https://youtu.be/abc'') \<noteq> []
   \<and> deduplicated [videoSource (js ''https://youtu.be/abc''),
        \<lparr>title = Some (js ''A''), uri = js '' a.example ''\<rparr>]
   \<and> uniqueSources (js ''https://youtu.be/abc'')
        [videoSource (js ''https://youtu.be/abc''),
         \<lparr>title = Some (js ''A''), uri = js '' a.example ''\<rparr>]
     = [videoSource (js ''https://youtu.be/abc''),
        \<lparr>title = Some (js ''A''), uri = js '' a.example ''\<rparr>]"
proof -
  let ?u = "js ''https://youtu.be/abc''"
  let ?a = "\<lparr>title = Some (js ''A''), uri = js '' a.example ''\<rparr>"
  let ?xs = "[?a, \<lparr>title = Some (js ''B''), uri = js ''a.example''\<rparr>,
              \<lparr>title = None, uri = js ''  ''\<rparr>,
              \<lparr>title = Some (js ''D''), uri = js ''https://youtu.be/abc''\<rparr>]"
  have run: "uniqueSources ?u ?xs = [videoSource ?u, ?a]"
    by (simp add: uniqueSources_def keepSource_def videoSource_def trim_def isWhiteSpace_def
                  js_def Let_def)
  have drop: "withoutVideoSource ?u [videoSource ?u, ?a] = [?a]"
    by (simp add: withoutVideoSource_def)
  have ded: "deduplicated [videoSource ?u, ?a]"
    by (simp add: deduplicated_def videoSource_def trim_def isWhiteSpace_def js_def)
  have hd: "[videoSource ?u, ?a] \<noteq> [] \<and> hd [videoSource ?u, ?a] = videoSource ?u
              \<and> deduplicated [videoSource ?u, ?a]"
    using ded by simp
  have nb: "trim ?u \<noteq> []"
    by (simp add: trim_def isWhiteSpace_def js_def)
  from uniqueSources_idempotent [of ?u ?xs "[videoSource ?u, ?a]"] hd nb
  have "uniqueSources ?u (withoutVideoSource ?u (uniqueSources ?u ?xs)) = uniqueSources ?u ?xs"
    and "uniqueSources ?u (tl (uniqueSources ?u ?xs)) = uniqueSources ?u ?xs"
    and "uniqueSources ?u [videoSource ?u, ?a] = [videoSource ?u, ?a]"
    by blast+
  with run drop ded nb show ?thesis by simp
qed

section \<open>Properties of the pipelines\<close>

subsection \<open>Documents\<close>

lemma map_of_setKey: "map_of (setKey k v ps) = (map_of ps)(k \<mapsto> v)"
  by (induction ps) auto

lemma getProp_setProp_same: "setProp d k v = Some d' \<Longrightarrow> getProp d' k = v"
  by (cases d) (auto simp: map_of_setKey)

lemma getProp_setProp_other:
  "setProp d k v = Some d' \<Longrightarrow> k' \<noteq> k \<Longrightarrow> getProp d' k' = getProp d k'"
  by (cases d) (auto simp: map_of_setKey)

lemma keys_distinct:
  "js ''videoId'' \<noteq> js ''videoUrl''" "js ''videoUrl'' \<noteq> js ''sources''"
  "js ''videoId'' \<noteq> js ''sources''" "js ''videoTitle'' \<noteq> js ''videoUrl''"
  "js ''error'' \<noteq> js ''videoUrl''" "js ''error'' \<noteq> js ''videoTitle''"
  by (simp_all add: js_def)

lemma identityGuards_Fulfilled:
  assumes "identityGuards P url expected t r = Fulfilled doc"
  shows "getProp doc (js ''videoUrl'') = JStr url \<and> getProp doc (js ''videoId'') = JStr expected"
proof -
  from assms obtain pinned where
    pin: "setProp (decodeResponse P r) (js ''videoUrl'') (JStr url) = Some pinned"
    by (auto simp: identityGuards_def Let_def split: if_splits option.splits)
  from assms pin have idok: "getProp pinned (js ''videoId'') = JStr expected"
    by (auto simp: identityGuards_def Let_def split: if_splits)
  from assms pin obtain srcs where
    fin: "setProp pinned (js ''sources'') srcs = Some doc"
    by (auto simp: identityGuards_def Let_def split: if_splits option.splits jsvalue.splits)
  have "getProp doc (js ''videoUrl'') = getProp pinned (js ''videoUrl'')"
    using fin keys_distinct by (intro getProp_setProp_other)
  also have "\<dots> = JStr url" using pin by (rule getProp_setProp_same)
  finally have 1: "getProp doc (js ''videoUrl'') = JStr url" .
  have "getProp doc (js ''videoId'') = getProp pinned (js ''videoId'')"
    using fin keys_distinct by (intro getProp_setProp_other)
  with idok have 2: "getProp doc (js ''videoId'') = JStr expected" by simp
  from 1 2 show ?thesis ..
qed

lemma getAnalysisFromWeb_Fulfilled:
  assumes "snd (getAnalysisFromWeb P W url md) = Fulfilled doc"
  shows "\<exists>expected t r. extractYouTubeId (parseURL P) url = Some expected
           \<and> identityGuards P url expected t r = Fulfilled doc"
  using assms
  by (auto simp: getAnalysisFromWeb_def Let_def
           split: option.splits if_splits prod.splits genResult.splits)

subsection \<open>The steps before generation\<close>

lemma getClient_None_iff:
  "getClient W = None \<longleftrightarrow>
     \<not> truthyStr (viteKey W) \<and> \<not> truthyStr (procKey W) \<and> \<not> truthyStr (procGeminiKey W)"
  by (auto simp: getClient_def getApiKey_def truthyStr_def Let_def split: option.splits)

lemma web_no_generate_without_client:
  "getClient W = None \<Longrightarrow> IOGenerate req \<notin> set (fst (getAnalysisFromWeb P W url md))"
  by (auto simp: getAnalysisFromWeb_def fetchYouTubeOEmbed_def Let_def
           split: option.splits if_splits prod.splits)

lemma file_no_generate_without_client:
  "getClient W = None \<Longrightarrow> IOGenerate req \<notin> set (fst (getAnalysisFromFile P W file))"
  by (auto simp: getAnalysisFromFile_def Let_def split: promise.splits)

lemma web_reaches_generation:
  assumes "extractYouTubeId (parseURL P) url = Some expected" "expected \<noteq> []"
    and "fetchYouTubeOEmbed P W url = (ops, Some m)" "truthy (oembedTitle m)"
  shows "getAnalysisFromWeb P W url md =
           (case getClient W of
              None \<Rightarrow> (ops, Rejected MissingCredential)
            | Some apiKey \<Rightarrow>
                (case generateContent W apiKey (webRequest url expected m (md = Video)) of
                   GenFails \<Rightarrow>
                     (ops @ [IOGenerate (webRequest url expected m (md = Video))],
                      Rejected TransportError)
                 | GenResponse r \<Rightarrow>
                     (ops @ [IOGenerate (webRequest url expected m (md = Video))],
                      identityGuards P url expected (oembedTitle m) r)))"
  using assms by (simp add: getAnalysisFromWeb_def Let_def)

lemma verificationFails_title:
  "verificationFails P W url \<longleftrightarrow> \<not> truthy (titleOf (snd (fetchYouTubeOEmbed P W url)))"
  by (auto simp: verificationFails_def metadataFailure_def fetchYouTubeOEmbed_def titleOf_def
        Let_def split: option.splits fetchResult.splits if_splits)

lemma fetchYouTubeOEmbed_ops:
  "IOGenerate req \<notin> set (fst (fetchYouTubeOEmbed P W url))"
  by (auto simp: fetchYouTubeOEmbed_def Let_def split: option.splits)

lemma web_unverifiable:
  assumes "extractYouTubeId (parseURL P) url = Some expected" "expected \<noteq> []"
    and "\<not> truthy (titleOf (snd (fetchYouTubeOEmbed P W url)))"
  shows "getAnalysisFromWeb P W url md = (fst (fetchYouTubeOEmbed P W url), Rejected UnverifiableVideo)"
  using assms
  by (cases "fetchYouTubeOEmbed P W url")
     (auto simp: getAnalysisFromWeb_def titleOf_def Let_def split: option.splits)

subsection \<open>The frame sampler\<close>

lemma sampler_released_inv:
  "(\<forall>fs. settled s = Fulfilled fs \<longrightarrow> revoked s)
   \<Longrightarrow> (\<forall>fs. settled (fold (handleEvent n) evs s) = Fulfilled fs
          \<longrightarrow> revoked (fold (handleEvent n) evs s))"
proof (induction evs arbitrary: s)
  case Nil
  then show ?case by simp
next
  case (Cons e evs)
  have "\<forall>fs. settled (handleEvent n e s) = Fulfilled fs \<longrightarrow> revoked (handleEvent n e s)"
    using Cons.prems
    by (cases e) (auto simp: capture_def settle_def split: promise.splits if_splits)
  then show ?case using Cons.IH [of "handleEvent n e s"] by simp
qed

lemma extractFramesFromVideo_success_releases:
  "settled (extractFramesFromVideo file n) = Fulfilled fs \<Longrightarrow> revoked (extractFramesFromVideo file n)"
  using sampler_released_inv [of newSampler n "playback file"]
  by (simp add: extractFramesFromVideo_def newSampler_def)

subsection \<open>Evaluation at the example platform\<close>

lemma ex_extract: "extractYouTubeId exampleParseURL exampleLink = Some (js ''ABC123'')"
  by (simp add: exampleLink_def extractYouTubeId_def exampleParseURL_def exampleURLs_def
        searchParams_get_def truthyStr_def js_def)

lemma ex_oembed:
  "fetchYouTubeOEmbed examplePlatform (exampleWorld k verifiedFinal g) exampleLink
     = ([IOFetch (oembedEndpoint (js ''https%3A%2F%2Fwww.youtube.com%2Fwatch%3Fv%3DABC123''))],
        Some \<lparr>oembedTitle = JStr (js ''Final''), author_name = JStr (js ''TV'')\<rparr>)"
  by (simp add: fetchYouTubeOEmbed_def examplePlatform_def exampleWorld_def verifiedFinal_def
        exampleEncoded_def exampleLink_def exampleJsonParse_def exampleJsonTexts_def js_def Let_def)

lemma ex_client: "getClient (exampleWorld (Some (js ''key'')) f g) = Some (js ''key'')"
  by (simp add: getClient_def getApiKey_def exampleWorld_def truthyStr_def js_def)

lemma ex_no_client: "getClient (exampleWorld None f g) = None"
  by (simp add: getClient_def getApiKey_def exampleWorld_def truthyStr_def)

lemma ex_generate: "generateContent (exampleWorld k f g) apiKey req = g"
  by (simp add: exampleWorld_def)

lemma ex_parse: "parseURL examplePlatform = exampleParseURL"
  by (simp add: examplePlatform_def)

lemma ex_lower: "toLowerCase examplePlatform = asciiLower"
  by (simp add: examplePlatform_def)

lemma ex_id_nonempty: "js ''ABC123'' \<noteq> []"
  by (simp add: js_def)

lemma ex_decode_plain:
  "exampleJsonParse t = Some d \<Longrightarrow> t \<noteq> [] \<Longrightarrow> hd t = LBRACE \<Longrightarrow> last t = RBRACE \<Longrightarrow>
   decodeResponse examplePlatform \<lparr>responseText = Some t, groundingChunks = c\<rparr> = d"
  using parseJsonResponse_wrapped [of t "[]" "[]" exampleJsonParse]
  by (simp add: decodeResponse_def examplePlatform_def)

lemma ex_decode_mismatch:
  "decodeResponse examplePlatform
     \<lparr>responseText = Some (js ''{\"videoTitle\":\"Final\",\"videoId\":\"XYZ999\"}''), groundingChunks = c\<rparr>
   = JObj [(js ''videoTitle'', JStr (js ''Final'')), (js ''videoId'', JStr (js ''XYZ999''))]"
  by (rule ex_decode_plain) (simp_all add: exampleJsonParse_def exampleJsonTexts_def js_def)

lemma ex_decode_missing:
  "decodeResponse examplePlatform
     \<lparr>responseText = Some (js ''{\"videoTitle\":\"Final\"}''), groundingChunks = c\<rparr>
   = JObj [(js ''videoTitle'', JStr (js ''Final''))]"
  by (rule ex_decode_plain) (simp_all add: exampleJsonParse_def exampleJsonTexts_def js_def)

lemma ex_decode_error:
  "decodeResponse examplePlatform
     \<lparr>responseText = Some (js ''{\"error\":\"unsure\"}''), groundingChunks = c\<rparr>
   = JObj [(js ''error'', JStr (js ''unsure''))]"
  by (rule ex_decode_plain) (simp_all add: exampleJsonParse_def exampleJsonTexts_def js_def)

lemma ex_sources:
  "uniqueSources exampleLink
     [\<lparr>title = Some (js ''A''), uri = js ''a.example''\<rparr>]
   = [videoSource exampleLink, \<lparr>title = Some (js ''A''), uri = js ''a.example''\<rparr>]"
  by (simp add: uniqueSources_def keepSource_def videoSource_def exampleLink_def trim_def
        isWhiteSpace_def js_def Let_def)

lemma ex_guards:
  "identityGuards examplePlatform exampleLink (js ''ABC123'') (JStr (js ''Final''))
     \<lparr>responseText = Some echoedText,
      groundingChunks =
          Some [Chunk (Some \<lparr>webTitle = Some (js ''A''), webUri = Some (js ''a.example'')\<rparr>),
                Chunk None]\<rparr>
   = Fulfilled exampleDocument"
  by (simp add: identityGuards_def decodeResponse_def parseJsonResponse_def lastIndexOf_def
        substring_def examplePlatform_def exampleJsonParse_def exampleJsonTexts_def
        titlesLooselyMatch_def normalizeTitle_def asciiLower_def trim_def isWhiteSpace_def
        isZeroWidth_def groundingSources_def chunkSources_def uniqueSources_def keepSource_def
        videoSource_def sourceValue_def exampleLink_def echoedText_def exampleDocument_def
        js_def Let_def)

lemma ex_video:
  "settled (extractFramesFromVideo exampleVideo 20) = Fulfilled (replicate 20 (js ''AA''))"
  by (simp add: exampleVideo_def extractFramesFromVideo_def exampleFile_def newSampler_def
        capture_def settle_def eval_nat_numeral)

lemma ex_web_run:
  "getAnalysisFromWeb examplePlatform (exampleWorld k verifiedFinal g) exampleLink md =
     (case getClient (exampleWorld k verifiedFinal g) of
        None \<Rightarrow>
          ([IOFetch (oembedEndpoint (js ''https%3A%2F%2Fwww.youtube.com%2Fwatch%3Fv%3DABC123''))],
           Rejected MissingCredential)
      | Some apiKey \<Rightarrow>
          (case g of
             GenFails \<Rightarrow>
               ([IOFetch (oembedEndpoint (js ''https%3A%2F%2Fwww.youtube.com%2Fwatch%3Fv%3DABC123'')),
                 IOGenerate (webRequest exampleLink (js ''ABC123'')
                   \<lparr>oembedTitle = JStr (js ''Final''), author_name = JStr (js ''TV'')\<rparr>
                   (md = Video))],
                Rejected TransportError)
           | GenResponse r \<Rightarrow>
               ([IOFetch (oembedEndpoint (js ''https%3A%2F%2Fwww.youtube.com%2Fwatch%3Fv%3DABC123'')),
                 IOGenerate (webRequest exampleLink (js ''ABC123'')
                   \<lparr>oembedTitle = JStr (js ''Final''), author_name = JStr (js ''TV'')\<rparr>
                   (md = Video))],
                identityGuards examplePlatform exampleLink (js ''ABC123'') (JStr (js ''Final'')) r)))"
proof -
  have e: "extractYouTubeId (parseURL examplePlatform) exampleLink = Some (js ''ABC123'')"
    by (simp add: ex_parse ex_extract)
  have t: "truthy (oembedTitle \<lparr>oembedTitle = JStr (js ''Final''), author_name = JStr (js ''TV'')\<rparr>)"
    by (simp add: js_def)
  show ?thesis
    using web_reaches_generation [OF e ex_id_nonempty ex_oembed t, of k g md]
    by (simp add: ex_generate split: option.splits genResult.splits)
qed

subsection \<open>The claims about the link path\<close>

text \<open>
  C1: whenever a link-path request completes with a document, the \<open>videoUrl\<close> of
  the document is the URL the user supplied, code unit for code unit, and its
  \<open>videoId\<close> is the identifier that the extractor produces on that URL.
\<close>

theorem getAnalysisFromWeb_pins_identity:
  assumes "snd (getAnalysisFromWeb P W url md) = Fulfilled doc"
  shows "getProp doc (js ''videoUrl'') = JStr url
         \<and> (\<exists>expected. extractYouTubeId (parseURL P) url = Some expected
               \<and> getProp doc (js ''videoId'') = JStr expected)"
proof -
  from assms obtain expected t r where
    e: "extractYouTubeId (parseURL P) url = Some expected"
    and g: "identityGuards P url expected t r = Fulfilled doc"
    using getAnalysisFromWeb_Fulfilled by blast
  from g have "getProp doc (js ''videoUrl'') = JStr url"
    and "getProp doc (js ''videoId'') = JStr expected"
    using identityGuards_Fulfilled by blast+
  with e show ?thesis by blast
qed

theorem getAnalysisFromWeb_pins_identity_witness:
  "snd (getAnalysisFromWeb examplePlatform
          (exampleWorld (Some (js ''key'')) verifiedFinal
             (GenResponse
                \<lparr>responseText = Some echoedText,
                 groundingChunks =
                   Some [Chunk (Some \<lparr>webTitle = Some (js ''A''), webUri = Some (js ''a.example'')\<rparr>),
                         Chunk None]\<rparr>))
          exampleLink Web)
     = Fulfilled exampleDocument
   \<and> getProp exampleDocument (js ''videoUrl'') = JStr exampleLink
   \<and> extractYouTubeId (parseURL examplePlatform) exampleLink = Some (js ''ABC123'')
   \<and> getProp exampleDocument (js ''videoId'') = JStr (js ''ABC123'')"
proof -
  let ?W = "exampleWorld (Some (js ''key'')) verifiedFinal
             (GenResponse
                \<lparr>responseText = Some echoedText,
                 groundingChunks =
                   Some [Chunk (Some \<lparr>webTitle = Some (js ''A''), webUri = Some (js ''a.example'')\<rparr>),
                         Chunk None]\<rparr>)"
  have run: "snd (getAnalysisFromWeb examplePlatform ?W exampleLink Web) = Fulfilled exampleDocument"
    by (simp add: ex_web_run ex_client ex_guards)
  have e: "extractYouTubeId (parseURL examplePlatform) exampleLink = Some (js ''ABC123'')"
    by (simp add: ex_parse ex_extract)
  from getAnalysisFromWeb_pins_identity [OF run] e
  have "getProp exampleDocument (js ''videoUrl'') = JStr exampleLink"
    and "getProp exampleDocument (js ''videoId'') = JStr (js ''ABC123'')"
    by auto
  with run e show ?thesis by simp
qed

lemma identityGuards_on_identifier:
  assumes "isObject d" and "\<not> truthy (getProp d (js ''error''))"
    and "decodeResponse P r = d"
  shows "identityGuards P url expected t r =
           (if \<not> truthy (getProp d (js ''videoId'')) then Rejected MissingVideoId
            else if getProp d (js ''videoId'') \<noteq> JStr expected
              then Rejected (VideoIdMismatch (getProp d (js ''videoId'')) expected)
            else identityGuards P url expected t r)"
proof -
  from assms(1) obtain pinned where
    pin: "setProp d (js ''videoUrl'') (JStr url) = Some pinned"
    by (cases d) auto
  have "getProp pinned (js ''videoId'') = getProp d (js ''videoId'')"
    using pin keys_distinct by (intro getProp_setProp_other)
  moreover from assms(1) have "truthy d" by (cases d) auto
  ultimately show ?thesis using assms(2,3) pin
    by (simp add: identityGuards_def Let_def)
qed

text \<open>
  C2: in the link path, once a document is decoded and carries no declared error: if
  its identifier field is absent or empty, the pipeline ends with MissingVideoId; if
  the identifier is present and not exactly the identifier extracted from the URL
  (compared as it is, with no normalisation), the pipeline ends with
  VideoIdMismatch, which carries both values, and no document is returned.
\<close>

theorem identifier_guard:
  assumes "extractYouTubeId (parseURL P) url = Some expected" and "expected \<noteq> []"
    and "fetchYouTubeOEmbed P W url = (ops, Some m)" and "truthy (oembedTitle m)"
    and "getClient W = Some apiKey"
    and "generateContent W apiKey (webRequest url expected m (md = Video)) = GenResponse r"
    and "decodeResponse P r = d" and "isObject d"
    and "\<not> truthy (getProp d (js ''error''))"
  shows "(getProp d (js ''videoId'') = JUndefined \<or> getProp d (js ''videoId'') = JStr []
            \<longrightarrow> snd (getAnalysisFromWeb P W url md) = Rejected MissingVideoId)
         \<and> (\<forall>s. getProp d (js ''videoId'') = JStr s \<and> s \<noteq> [] \<and> s \<noteq> expected
            \<longrightarrow> snd (getAnalysisFromWeb P W url md) = Rejected (VideoIdMismatch (JStr s) expected))"
proof -
  have run: "snd (getAnalysisFromWeb P W url md) = identityGuards P url expected (oembedTitle m) r"
    using web_reaches_generation [OF assms(1-4), of md] assms(5,6) by simp
  have g: "identityGuards P url expected (oembedTitle m) r =
           (if \<not> truthy (getProp d (js ''videoId'')) then Rejected MissingVideoId
            else if getProp d (js ''videoId'') \<noteq> JStr expected
              then Rejected (VideoIdMismatch (getProp d (js ''videoId'')) expected)
            else identityGuards P url expected (oembedTitle m) r)"
    using assms(8,9,7) by (rule identityGuards_on_identifier)
  show ?thesis
  proof (intro conjI impI allI)
    assume "getProp d (js ''videoId'') = JUndefined \<or> getProp d (js ''videoId'') = JStr []"
    then have "\<not> truthy (getProp d (js ''videoId''))" by auto
    with g run show "snd (getAnalysisFromWeb P W url md) = Rejected MissingVideoId" by simp
  next
    fix s
    assume a: "getProp d (js ''videoId'') = JStr s \<and> s \<noteq> [] \<and> s \<noteq> expected"
    then have "truthy (getProp d (js ''videoId''))"
      and "getProp d (js ''videoId'') \<noteq> JStr expected" by auto
    with g have "identityGuards P url expected (oembedTitle m) r
                   = Rejected (VideoIdMismatch (getProp d (js ''videoId'')) expected)"
      by presburger
    with run a show "snd (getAnalysisFromWeb P W url md) = Rejected (VideoIdMismatch (JStr s) expected)"
      by simp
  qed
qed

theorem identifier_guard_witness:
  "snd (getAnalysisFromWeb examplePlatform
          (exampleWorld (Some (js ''key'')) verifiedFinal
             (answer (js ''{\"videoTitle\":\"Final\",\"videoId\":\"XYZ999\"}'')))
          exampleLink Web)
     = Rejected (VideoIdMismatch (JStr (js ''XYZ999'')) (js ''ABC123''))
   \<and> snd (getAnalysisFromWeb examplePlatform
          (exampleWorld (Some (js ''key'')) verifiedFinal
             (answer (js ''{\"videoTitle\":\"Final\"}'')))
          exampleLink Web)
     = Rejected MissingVideoId"
proof -
  let ?m = "\<lparr>oembedTitle = JStr (js ''Final''), author_name = JStr (js ''TV'')\<rparr>"
  let ?ops = "[IOFetch (oembedEndpoint (js ''https%3A%2F%2Fwww.youtube.com%2Fwatch%3Fv%3DABC123''))]"
  let ?r1 = "\<lparr>responseText = Some (js ''{\"videoTitle\":\"Final\",\"videoId\":\"XYZ999\"}''),
              groundingChunks = None\<rparr>"
  let ?r2 = "\<lparr>responseText = Some (js ''{\"videoTitle\":\"Final\"}''), groundingChunks = None\<rparr>"
  let ?d1 = "JObj [(js ''videoTitle'', JStr (js ''Final'')), (js ''videoId'', JStr (js ''XYZ999''))]"
  let ?d2 = "JObj [(js ''videoTitle'', JStr (js ''Final''))]"
  let ?W1 = "exampleWorld (Some (js ''key'')) verifiedFinal
               (answer (js ''{\"videoTitle\":\"Final\",\"videoId\":\"XYZ999\"}''))"
  let ?W2 = "exampleWorld (Some (js ''key'')) verifiedFinal (answer (js ''{\"videoTitle\":\"Final\"}''))"
  have e: "extractYouTubeId (parseURL examplePlatform) exampleLink = Some (js ''ABC123'')"
    by (simp add: ex_parse ex_extract)
  have t: "truthy (oembedTitle ?m)" by (simp add: js_def)
  have g1: "generateContent ?W1 (js ''key'') (webRequest exampleLink (js ''ABC123'') ?m (Web = Video))
              = GenResponse ?r1"
    by (simp add: ex_generate answer_def)
  have g2: "generateContent ?W2 (js ''key'') (webRequest exampleLink (js ''ABC123'') ?m (Web = Video))
              = GenResponse ?r2"
    by (simp add: ex_generate answer_def)
  have o1: "isObject ?d1" and o2: "isObject ?d2" by simp_all
  have n1: "\<not> truthy (getProp ?d1 (js ''error''))" and n2: "\<not> truthy (getProp ?d2 (js ''error''))"
    by (simp_all add: js_def)
  have v1: "getProp ?d1 (js ''videoId'') = JStr (js ''XYZ999'') \<and> js ''XYZ999'' \<noteq> []
              \<and> js ''XYZ999'' \<noteq> js ''ABC123''"
    by (simp add: js_def)
  have v2: "getProp ?d2 (js ''videoId'') = JUndefined" by (simp add: js_def)
  have 1: "snd (getAnalysisFromWeb examplePlatform ?W1 exampleLink Web)
             = Rejected (VideoIdMismatch (JStr (js ''XYZ999'')) (js ''ABC123''))"
    using identifier_guard
            [of examplePlatform exampleLink "js ''ABC123''" ?W1 ?ops ?m "js ''key''" Web ?r1 ?d1]
          e ex_id_nonempty ex_oembed t ex_client g1 ex_decode_mismatch o1 n1 v1
    by blast
  have 2: "snd (getAnalysisFromWeb examplePlatform ?W2 exampleLink Web) = Rejected MissingVideoId"
    using identifier_guard
            [of examplePlatform exampleLink "js ''ABC123''" ?W2 ?ops ?m "js ''key''" Web ?r2 ?d2]
          e ex_id_nonempty ex_oembed t ex_client g2 ex_decode_missing o2 n2 v2
    by blast
  from 1 2 show ?thesis ..
qed

text \<open>
  C3: on the link path, when the metadata verification step fails (a network error,
  a status other than 2xx, a body without a title), the pipeline ends with
  UnverifiableVideo and the generation call is not among the operations performed.
\<close>

theorem unverifiable_video_stops:
  assumes "extractYouTubeId (parseURL P) url = Some expected" and "expected \<noteq> []"
    and "verificationFails P W url"
  shows "snd (getAnalysisFromWeb P W url md) = Rejected UnverifiableVideo
         \<and> (\<forall>req. IOGenerate req \<notin> set (fst (getAnalysisFromWeb P W url md)))"
proof -
  from assms(3) have "\<not> truthy (titleOf (snd (fetchYouTubeOEmbed P W url)))"
    by (simp add: verificationFails_title)
  with assms(1,2) have
    "getAnalysisFromWeb P W url md = (fst (fetchYouTubeOEmbed P W url), Rejected UnverifiableVideo)"
    by (rule web_unverifiable)
  then show ?thesis by (simp add: fetchYouTubeOEmbed_ops)
qed

theorem unverifiable_video_stops_witness:
  "verificationFails examplePlatform
     (exampleWorld (Some (js ''key'')) (FetchResponse False None) (answer echoedText)) exampleLink
   \<and> getAnalysisFromWeb examplePlatform
         (exampleWorld (Some (js ''key'')) (FetchResponse False None) (answer echoedText))
         exampleLink Web
       = ([IOFetch (oembedEndpoint (js ''https%3A%2F%2Fwww.youtube.com%2Fwatch%3Fv%3DABC123''))],
          Rejected UnverifiableVideo)"
proof -
  let ?W = "exampleWorld (Some (js ''key'')) (FetchResponse False None) (answer echoedText)"
  have e: "extractYouTubeId (parseURL examplePlatform) exampleLink = Some (js ''ABC123'')"
    by (simp add: ex_parse ex_extract)
  have v: "verificationFails examplePlatform ?W exampleLink"
    by (simp add: verificationFails_def metadataFailure_def examplePlatform_def exampleWorld_def
          exampleEncoded_def exampleLink_def js_def)
  have fo: "fetchYouTubeOEmbed examplePlatform ?W exampleLink
           = ([IOFetch (oembedEndpoint (js ''https%3A%2F%2Fwww.youtube.com%2Fwatch%3Fv%3DABC123''))],
              None)"
    by (simp add: fetchYouTubeOEmbed_def examplePlatform_def exampleWorld_def exampleEncoded_def
          exampleLink_def js_def Let_def)
  have ops: "fst (getAnalysisFromWeb examplePlatform ?W exampleLink Web)
           = [IOFetch (oembedEndpoint (js ''https%3A%2F%2Fwww.youtube.com%2Fwatch%3Fv%3DABC123''))]"
    using web_unverifiable [OF e ex_id_nonempty, of ?W Web] fo by (simp add: titleOf_def)
  from unverifiable_video_stops [OF e ex_id_nonempty v, of Web]
  have "snd (getAnalysisFromWeb examplePlatform ?W exampleLink Web) = Rejected UnverifiableVideo"
    by blast
  with ops v show ?thesis by (simp add: prod_eq_iff)
qed

subsection \<open>The credential\<close>

text \<open>
  C4, as stated, fails: the credential is looked at only when the generation call is
  made. With no credential configured, a request for a valid and verified link fails
  with MissingCredential after the metadata fetch has been performed; with a link that
  cannot be verified it fails with UnverifiableVideo instead; and on the file path the
  video is loaded first, so a file that fails to load gives FrameExtractionFailed.
\<close>

theorem missing_credential_counterexample:
  "getClient (exampleWorld None verifiedFinal (answer echoedText)) = None
   \<and> getAnalysisFromWeb examplePlatform (exampleWorld None verifiedFinal (answer echoedText))
         exampleLink Web
       = ([IOFetch (oembedEndpoint (js ''https%3A%2F%2Fwww.youtube.com%2Fwatch%3Fv%3DABC123''))],
          Rejected MissingCredential)
   \<and> getAnalysisFromFile examplePlatform (exampleWorld None verifiedFinal (answer echoedText))
         (exampleFile [VideoError])
       = ([IOVideo (js ''match.mp4'')], Rejected FrameExtractionFailed)"
  by (simp add: ex_web_run ex_no_client getAnalysisFromFile_def extractFramesFromVideo_def
        exampleFile_def newSampler_def settle_def)

text \<open>
  C4, amended: while no credential is configured, the generation call is never
  invoked, and a request whose earlier steps succeed fails with MissingCredential: on
  the link path after the identifier is extracted and the metadata fetched and
  verified, on the file path after the frames are sampled. The operations performed
  by then are the metadata fetch, or the loading of the video.
\<close>

theorem missing_credential_late:
  assumes "\<not> truthyStr (viteKey W)" and "\<not> truthyStr (procKey W)"
    and "\<not> truthyStr (procGeminiKey W)"
  shows "(\<forall>req. IOGenerate req \<notin> set (fst (analyzeFootballMatch P W inp)))
         \<and> (\<forall>expected. extractYouTubeId (parseURL P) url = Some expected \<and> expected \<noteq> []
               \<and> \<not> verificationFails P W url
             \<longrightarrow> getAnalysisFromWeb P W url md
                   = (fst (fetchYouTubeOEmbed P W url), Rejected MissingCredential))
         \<and> (\<forall>pictures. settled (extractFramesFromVideo file 20) = Fulfilled pictures
             \<longrightarrow> getAnalysisFromFile P W file
                   = ([IOVideo (name file)], Rejected MissingCredential))"
proof -
  from assms have nc: "getClient W = None" by (simp add: getClient_None_iff)
  have 1: "\<forall>req. IOGenerate req \<notin> set (fst (analyzeFootballMatch P W inp))"
    using nc by (cases inp)
      (simp_all add: web_no_generate_without_client file_no_generate_without_client)
  have 2: "\<forall>expected. extractYouTubeId (parseURL P) url = Some expected \<and> expected \<noteq> []
               \<and> \<not> verificationFails P W url
             \<longrightarrow> getAnalysisFromWeb P W url md
                   = (fst (fetchYouTubeOEmbed P W url), Rejected MissingCredential)"
  proof (intro allI impI)
    fix expected
    assume a: "extractYouTubeId (parseURL P) url = Some expected \<and> expected \<noteq> []
               \<and> \<not> verificationFails P W url"
    then have t: "truthy (titleOf (snd (fetchYouTubeOEmbed P W url)))"
      by (simp add: verificationFails_title)
    then obtain ops m where f: "fetchYouTubeOEmbed P W url = (ops, Some m)"
      and tm: "truthy (oembedTitle m)"
      by (cases "fetchYouTubeOEmbed P W url") (auto simp: titleOf_def split: option.splits)
    from a f tm nc show "getAnalysisFromWeb P W url md
                   = (fst (fetchYouTubeOEmbed P W url), Rejected MissingCredential)"
      using web_reaches_generation [of P url expected W ops m md] by simp
  qed
  have 3: "\<forall>pictures. settled (extractFramesFromVideo file 20) = Fulfilled pictures
             \<longrightarrow> getAnalysisFromFile P W file
                   = ([IOVideo (name file)], Rejected MissingCredential)"
    using nc by (simp add: getAnalysisFromFile_def Let_def)
  from 1 2 3 show ?thesis by blast
qed

theorem missing_credential_late_witness:
  "\<not> truthyStr (viteKey (exampleWorld None verifiedFinal (answer echoedText)))
   \<and> getAnalysisFromWeb examplePlatform (exampleWorld None verifiedFinal (answer echoedText))
         exampleLink Video
       = ([IOFetch (oembedEndpoint (js ''https%3A%2F%2Fwww.youtube.com%2Fwatch%3Fv%3DABC123''))],
          Rejected MissingCredential)
   \<and> getAnalysisFromFile examplePlatform (exampleWorld None verifiedFinal (answer echoedText))
         exampleVideo
       = ([IOVideo (js ''match.mp4'')], Rejected MissingCredential)"
proof -
  let ?W = "exampleWorld None verifiedFinal (answer echoedText)"
  have k: "\<not> truthyStr (viteKey ?W)" "\<not> truthyStr (procKey ?W)" "\<not> truthyStr (procGeminiKey ?W)"
    by (simp_all add: exampleWorld_def truthyStr_def)
  have e: "extractYouTubeId (parseURL examplePlatform) exampleLink = Some (js ''ABC123'')"
    by (simp add: ex_parse ex_extract)
  have v: "\<not> verificationFails examplePlatform ?W exampleLink"
    by (simp add: verificationFails_title ex_oembed titleOf_def js_def)
  have f: "fst (fetchYouTubeOEmbed examplePlatform ?W exampleLink)
             = [IOFetch (oembedEndpoint (js ''https%3A%2F%2Fwww.youtube.com%2Fwatch%3Fv%3DABC123''))]"
    by (simp add: ex_oembed)
  have n: "name exampleVideo = js ''match.mp4''"
    by (simp add: exampleVideo_def exampleFile_def)
  from missing_credential_late
         [OF k, of examplePlatform "LinkInput exampleLink None" exampleLink Video exampleVideo]
       e ex_id_nonempty v ex_video
  have "getAnalysisFromWeb examplePlatform ?W exampleLink Video
          = (fst (fetchYouTubeOEmbed examplePlatform ?W exampleLink), Rejected MissingCredential)"
    and "getAnalysisFromFile examplePlatform ?W exampleVideo
          = ([IOVideo (name exampleVideo)], Rejected MissingCredential)"
    by blast+
  with k f n show ?thesis by simp
qed

subsection \<open>The file path\<close>

lemma stampFile_stamps:
  assumes "stampFile P file r = Fulfilled doc"
  shows "getProp doc (js ''videoTitle'') = JStr (name file)
         \<and> getProp doc (js ''videoUrl'') = JUndefined"
proof -
  from assms obtain titled where
    t: "setProp (decodeResponse P r) (js ''videoTitle'') (JStr (name file)) = Some titled"
    and u: "setProp titled (js ''videoUrl'') JUndefined = Some doc"
    by (auto simp: stampFile_def Let_def split: if_splits option.splits)
  have "getProp doc (js ''videoTitle'') = getProp titled (js ''videoTitle'')"
    using u keys_distinct by (intro getProp_setProp_other)
  also have "\<dots> = JStr (name file)" using t by (rule getProp_setProp_same)
  finally have 1: "getProp doc (js ''videoTitle'') = JStr (name file)" .
  have 2: "getProp doc (js ''videoUrl'') = JUndefined" using u by (rule getProp_setProp_same)
  from 1 2 show ?thesis ..
qed

lemma stampFile_keeps_error:
  assumes "isObject (decodeResponse P r)"
  shows "\<exists>doc. stampFile P file r = Fulfilled doc
           \<and> getProp doc (js ''error'') = getProp (decodeResponse P r) (js ''error'')"
proof -
  from assms obtain titled where
    t: "setProp (decodeResponse P r) (js ''videoTitle'') (JStr (name file)) = Some titled"
    by (cases "decodeResponse P r") auto
  from assms t have "isObject titled" by (cases "decodeResponse P r") auto
  then obtain doc where u: "setProp titled (js ''videoUrl'') JUndefined = Some doc"
    by (cases titled) auto
  from assms have "truthy (decodeResponse P r)" by (cases "decodeResponse P r") auto
  with t u have f: "stampFile P file r = Fulfilled doc"
    by (simp add: stampFile_def Let_def)
  have "getProp doc (js ''error'') = getProp titled (js ''error'')"
    using u keys_distinct by (intro getProp_setProp_other)
  also have "\<dots> = getProp (decodeResponse P r) (js ''error'')"
    using t keys_distinct by (intro getProp_setProp_other)
  finally show ?thesis using f by blast
qed

text \<open>
  C7: on the file path a decoded document that carries a declared error should be
  surfaced as an error and never returned. The code does not look at the field: for
  the answer \<^verbatim>\<open>{"error":"unsure"}\<close> the file path returns the document, stamped with
  the name of the file and an absent URL, whereas the link path rejects the same
  answer with the declared error.
\<close>

theorem getAnalysisFromFile_returns_declared_error:
  "snd (getAnalysisFromFile examplePlatform
          (exampleWorld (Some (js ''key'')) FetchFails (answer (js ''{\"error\":\"unsure\"}'')))
          exampleVideo)
     = Fulfilled (JObj [(js ''error'', JStr (js ''unsure'')),
                        (js ''videoTitle'', JStr (js ''match.mp4'')),
                        (js ''videoUrl'', JUndefined)])
   \<and> snd (getAnalysisFromWeb examplePlatform
          (exampleWorld (Some (js ''key'')) verifiedFinal (answer (js ''{\"error\":\"unsure\"}'')))
          exampleLink Web)
     = Rejected (ModelDeclinedIdentification (JStr (js ''unsure'')))"
proof -
  have k: "js ''error'' \<noteq> js ''videoTitle''" "js ''error'' \<noteq> js ''videoUrl''"
    "js ''videoTitle'' \<noteq> js ''videoUrl''" "js ''unsure'' \<noteq> []"
    by (simp_all add: js_def)
  have n: "name exampleVideo = js ''match.mp4''"
    by (simp add: exampleVideo_def exampleFile_def)
  have 1: "snd (getAnalysisFromFile examplePlatform
          (exampleWorld (Some (js ''key'')) FetchFails (answer (js ''{\"error\":\"unsure\"}'')))
          exampleVideo)
     = Fulfilled (JObj [(js ''error'', JStr (js ''unsure'')),
                        (js ''videoTitle'', JStr (js ''match.mp4'')),
                        (js ''videoUrl'', JUndefined)])"
    by (simp add: getAnalysisFromFile_def ex_video ex_client ex_generate answer_def
          stampFile_def ex_decode_error k n Let_def)
  have 2: "snd (getAnalysisFromWeb examplePlatform
          (exampleWorld (Some (js ''key'')) verifiedFinal (answer (js ''{\"error\":\"unsure\"}'')))
          exampleLink Web)
     = Rejected (ModelDeclinedIdentification (JStr (js ''unsure'')))"
    by (simp add: ex_web_run ex_client answer_def identityGuards_def ex_decode_error k Let_def)
  from 1 2 show ?thesis ..
qed

subsection \<open>The frame sampler and its resource handle\<close>

lemma extractFramesFromVideo_five_frames:
  "extractFramesFromVideo
     (exampleFile [LoadedMetadata 10, Seeked (js ''a''), Seeked (js ''b''), Seeked (js ''c''),
                   Seeked (js ''d''), Seeked (js ''e'')]) 5
   = \<lparr>frames = [js ''a'', js ''b'', js ''c'', js ''d'', js ''e''], captured = 5, step = 2,
      seeks = [0, 2, 4, 6, 8], onseeked = True, revoked = True,
      settled = Fulfilled [js ''a'', js ''b'', js ''c'', js ''d'', js ''e'']\<rparr>"
  by (simp add: extractFramesFromVideo_def exampleFile_def newSampler_def capture_def settle_def)

text \<open>
  C8: the object URL backing the video should be released when sampling completes and
  when it fails. The code revokes it only in the branch that resolves the promise
  (after the last capture); the error handler rejects without revoking. When the
  video fails to load, and when it fails after two of five captures, the promise is
  rejected and the handle is never released.
\<close>

theorem extractFramesFromVideo_error_keeps_handle:
  "settled (extractFramesFromVideo (exampleFile [VideoError]) 20) = Rejected FrameExtractionFailed
   \<and> \<not> revoked (extractFramesFromVideo (exampleFile [VideoError]) 20)
   \<and> settled (extractFramesFromVideo
        (exampleFile [LoadedMetadata 10, Seeked (js ''a''), Seeked (js ''b''), VideoError]) 5)
       = Rejected FrameExtractionFailed
   \<and> \<not> revoked (extractFramesFromVideo
        (exampleFile [LoadedMetadata 10, Seeked (js ''a''), Seeked (js ''b''), VideoError]) 5)"
  by (simp add: extractFramesFromVideo_def exampleFile_def newSampler_def capture_def settle_def)

end
